theory Spec2Isabelle
  imports Main "HOL-Library.Monad_Syntax"
begin

section \<open>Data model of the version, profile and extension gate (Versions.cpp)\<close>

text \<open>
  Modelled from the spec: the \<open>EProfile\<close> enumeration and \<open>ProfileName\<close> are declared in
  Versions.h, which is not among the sources. The spec gives the profiles as a bit-set over
  NoProfile, Core, Compatibility and ES with exactly one bit active in a compile unit; the
  comment at the head of Versions.cpp lists the same four masks. Each profile is one bit of
  an \<open>int\<close> mask, so that masks can be or-ed and complemented as the callers do.

  The C \<open>int\<close>s of the source (versions, masks, line numbers) are integers here: the source
  only compares them and takes their bitwise and, so that no overflow can arise.
\<close>

datatype EProfile = ENoProfile | ECoreProfile | ECompatibilityProfile | EEsProfile

fun profileIndex :: "EProfile \<Rightarrow> nat" where
  "profileIndex ENoProfile = 0"
| "profileIndex ECoreProfile = 1"
| "profileIndex ECompatibilityProfile = 2"
| "profileIndex EEsProfile = 3"

definition profileBits :: "EProfile \<Rightarrow> int" where
  "profileBits p = push_bit (profileIndex p) 1"

fun ProfileName :: "EProfile \<Rightarrow> string" where
  "ProfileName ENoProfile = ''none''"
| "ProfileName ECoreProfile = ''core''"
| "ProfileName ECompatibilityProfile = ''compatibility''"
| "ProfileName EEsProfile = ''es''"

text \<open>
  The behaviours an extension can have. \<open>EBhMissing\<close> is what a lookup answers for a
  name that is not a key of the table.
\<close>

datatype TExtensionBehavior =
  EBhMissing | EBhRequire | EBhEnable | EBhWarn | EBhDisable | EBhDisablePartial

datatype TPrefixType = EPrefixNone | EPrefixWarning

text \<open>A source location is passed through to the sink untouched; it is a line number here.\<close>

type_synonym TSourceLoc = int

text \<open>
  The gate never returns error codes: it calls \<open>error\<close>, \<open>warn\<close>, \<open>ppError\<close> (virtual, supplied
  by the parse context) or writes a message to \<open>infoSink.info\<close>. Each such call is one entry of
  a chronological list; the entry keeps the arguments of the call.
\<close>

datatype diagnostic =
    ErrorCall TSourceLoc string string string
  | WarnCall TSourceLoc string string string
  | PpErrorCall TSourceLoc string string string
  | InfoMessage TPrefixType string "TSourceLoc option"

record SpvVersion =
  spv :: int
  vulkanGlsl :: int
  vulkan :: int
  openGl :: int

text \<open>
  The members of \<open>TParseVersions\<close> that Versions.cpp reads or writes. \<open>suppressWarnings\<close> and
  \<open>relaxedErrors\<close> are queries on the message flags of the compile configuration, constant
  during a compile unit; \<open>requestedExtensions\<close> is what \<open>intermediate.addRequestedExtension\<close>
  collects; \<open>currentLoc\<close> is what \<open>getCurrentLoc()\<close> answers.
\<close>

record TParseVersions =
  profile :: EProfile
  version :: int
  forwardCompatible :: bool
  suppressWarnings :: bool
  relaxedErrors :: bool
  spvVersion :: SpvVersion
  extensionBehavior :: "string \<rightharpoonup> TExtensionBehavior"
  currentLoc :: TSourceLoc
  requestedExtensions :: "string set"
  infoSink :: "diagnostic list"

definition error :: "TParseVersions \<Rightarrow> TSourceLoc \<Rightarrow> string \<Rightarrow> string \<Rightarrow> string \<Rightarrow> TParseVersions" where
  "error st loc szReason szToken szExtraInfo =
     st\<lparr>infoSink := infoSink st @ [ErrorCall loc szReason szToken szExtraInfo]\<rparr>"

definition warn :: "TParseVersions \<Rightarrow> TSourceLoc \<Rightarrow> string \<Rightarrow> string \<Rightarrow> string \<Rightarrow> TParseVersions" where
  "warn st loc szReason szToken szExtraInfo =
     st\<lparr>infoSink := infoSink st @ [WarnCall loc szReason szToken szExtraInfo]\<rparr>"

definition ppError :: "TParseVersions \<Rightarrow> TSourceLoc \<Rightarrow> string \<Rightarrow> string \<Rightarrow> string \<Rightarrow> TParseVersions" where
  "ppError st loc szReason szToken szExtraInfo =
     st\<lparr>infoSink := infoSink st @ [PpErrorCall loc szReason szToken szExtraInfo]\<rparr>"

definition message :: "TParseVersions \<Rightarrow> TPrefixType \<Rightarrow> string \<Rightarrow> TSourceLoc option \<Rightarrow> TParseVersions" where
  "message st prefix s loc = st\<lparr>infoSink := infoSink st @ [InfoMessage prefix s loc]\<rparr>"

section \<open>Decimal text of an integer\<close>

text \<open>
  \<open>snprintf(buf, n, "%d", i)\<close> writes the decimal digits of \<open>i\<close>, with a minus sign when
  negative, cut to at most \<open>n - 1\<close> characters.
\<close>

fun digits :: "nat \<Rightarrow> string" where
  "digits n = (if n < 10 then [char_of (48 + n)] else digits (n div 10) @ [char_of (48 + n mod 10)])"

declare digits.simps [simp del]

definition decimal :: "int \<Rightarrow> string" where
  "decimal i = (if i < 0 then CHR ''-'' # digits (nat (- i)) else digits (nat i))"

definition snprintf_d :: "nat \<Rightarrow> int \<Rightarrow> string" where
  "snprintf_d n i = take (n - 1) (decimal i)"

section \<open>Profile check\<close>

definition requireProfile :: "TParseVersions \<Rightarrow> TSourceLoc \<Rightarrow> int \<Rightarrow> string \<Rightarrow> TParseVersions" where
  "requireProfile st loc profileMask featureDesc =
     (if and (profileBits (profile st)) profileMask = 0
      then error st loc ''not supported with this profile:'' featureDesc (ProfileName (profile st))
      else st)"

section \<open>Lookup of an extension's behaviour\<close>

definition getExtensionBehavior :: "TParseVersions \<Rightarrow> string \<Rightarrow> TExtensionBehavior" where
  "getExtensionBehavior st extension =
     (case extensionBehavior st extension of None \<Rightarrow> EBhMissing | Some b \<Rightarrow> b)"

definition extensionTurnedOn :: "TParseVersions \<Rightarrow> string \<Rightarrow> bool" where
  "extensionTurnedOn st extension =
     (case getExtensionBehavior st extension of
        EBhEnable \<Rightarrow> True
      | EBhRequire \<Rightarrow> True
      | EBhWarn \<Rightarrow> True
      | _ \<Rightarrow> False)"

fun extensionsTurnedOn :: "TParseVersions \<Rightarrow> string list \<Rightarrow> bool" where
  "extensionsTurnedOn st [] = False"
| "extensionsTurnedOn st (e # es) = (if extensionTurnedOn st e then True else extensionsTurnedOn st es)"

section \<open>Version and extension checks within a set of profiles\<close>

text \<open>
  An extension list is the array \<open>extensions\<close> with its \<open>numExtensions\<close> entries: the loops
  of the source run over exactly these, in order.

  The loop of \<open>profileRequires\<close>: a behaviour of warn writes the usage warning and falls
  through to the cases that set \<open>okay\<close>.
\<close>

fun profileRequires_loop ::
  "TParseVersions \<Rightarrow> TSourceLoc \<Rightarrow> string list \<Rightarrow> string \<Rightarrow> bool \<Rightarrow> TParseVersions \<times> bool" where
  "profileRequires_loop st loc [] featureDesc okay = (st, okay)"
| "profileRequires_loop st loc (e # es) featureDesc okay =
     (case getExtensionBehavior st e of
        EBhWarn \<Rightarrow>
          profileRequires_loop
            (message st EPrefixWarning (''extension '' @ e @ '' is being used for '' @ featureDesc) (Some loc))
            loc es featureDesc True
      | EBhRequire \<Rightarrow> profileRequires_loop st loc es featureDesc True
      | EBhEnable \<Rightarrow> profileRequires_loop st loc es featureDesc True
      | _ \<Rightarrow> profileRequires_loop st loc es featureDesc okay)"

definition profileRequires ::
  "TParseVersions \<Rightarrow> TSourceLoc \<Rightarrow> int \<Rightarrow> int \<Rightarrow> string list \<Rightarrow> string \<Rightarrow> TParseVersions" where
  "profileRequires st loc profileMask minVersion extensions featureDesc =
     (if and (profileBits (profile st)) profileMask \<noteq> 0 then
        (let okay = (minVersion > 0 \<and> version st \<ge> minVersion) in
         case profileRequires_loop st loc extensions featureDesc okay of
           (st', okay') \<Rightarrow>
             if \<not> okay'
             then error st' loc ''not supported for this version or the enabled extensions'' featureDesc []
             else st')
      else st)"

text \<open>
  The entry point that takes a single extension, possibly the null pointer: it passes
  \<open>extension ? 1 : 0\<close> as the count.
\<close>

definition profileRequires1 ::
  "TParseVersions \<Rightarrow> TSourceLoc \<Rightarrow> int \<Rightarrow> int \<Rightarrow> string option \<Rightarrow> string \<Rightarrow> TParseVersions" where
  "profileRequires1 st loc profileMask minVersion extension featureDesc =
     profileRequires st loc profileMask minVersion
       (case extension of None \<Rightarrow> [] | Some e \<Rightarrow> [e]) featureDesc"

section \<open>Deprecation\<close>

text \<open>
  \<open>String(int)\<close> of Common.h is not among the sources; it renders its argument in decimal.
\<close>

definition String_int :: "int \<Rightarrow> string" where
  "String_int i = decimal i"

definition checkDeprecated ::
  "TParseVersions \<Rightarrow> TSourceLoc \<Rightarrow> int \<Rightarrow> int \<Rightarrow> string \<Rightarrow> TParseVersions" where
  "checkDeprecated st loc profileMask depVersion featureDesc =
     (if and (profileBits (profile st)) profileMask \<noteq> 0 then
        (if version st \<ge> depVersion then
           (if forwardCompatible st
            then error st loc ''deprecated, may be removed in future release'' featureDesc []
            else if \<not> suppressWarnings st
            then message st EPrefixWarning
                   (featureDesc @ '' deprecated in version '' @ String_int depVersion
                      @ ''; may be removed in future release'') (Some loc)
            else st)
         else st)
      else st)"

section \<open>Requiring extensions\<close>

text \<open>The first loop of \<open>checkExtensionsRequested\<close>: is any of the extensions enabled or required?\<close>

fun anyEnabled :: "TParseVersions \<Rightarrow> string list \<Rightarrow> bool" where
  "anyEnabled st [] = False"
| "anyEnabled st (e # es) =
     (let behavior = getExtensionBehavior st e in
      if behavior = EBhEnable \<or> behavior = EBhRequire then True else anyEnabled st es)"

text \<open>The second loop: warnings for all extensions that warn, or are disabled under relaxed errors.\<close>

fun warnLoop ::
  "TParseVersions \<Rightarrow> TSourceLoc \<Rightarrow> string list \<Rightarrow> string \<Rightarrow> bool \<Rightarrow> TParseVersions \<times> bool" where
  "warnLoop st loc [] featureDesc warned = (st, warned)"
| "warnLoop st loc (e # es) featureDesc warned =
     (let behavior = getExtensionBehavior st e;
          promote = (behavior = EBhDisable \<and> relaxedErrors st);
          st1 = (if promote
                 then message st EPrefixWarning
                        ''The following extension must be enabled to use this feature:'' (Some loc)
                 else st);
          behavior1 = (if promote then EBhWarn else behavior)
      in if behavior1 = EBhWarn
         then warnLoop
                (message st1 EPrefixWarning (''extension '' @ e @ '' is being used for '' @ featureDesc) (Some loc))
                loc es featureDesc True
         else warnLoop st1 loc es featureDesc warned)"

definition checkExtensionsRequested ::
  "TParseVersions \<Rightarrow> TSourceLoc \<Rightarrow> string list \<Rightarrow> string \<Rightarrow> TParseVersions \<times> bool" where
  "checkExtensionsRequested st loc extensions featureDesc =
     (if anyEnabled st extensions then (st, True)
      else case warnLoop st loc extensions featureDesc False of
             (st', warned) \<Rightarrow> if warned then (st', True) else (st', False))"

definition requireExtensions ::
  "TParseVersions \<Rightarrow> TSourceLoc \<Rightarrow> string list \<Rightarrow> string \<Rightarrow> TParseVersions" where
  "requireExtensions st loc extensions featureDesc =
     (case checkExtensionsRequested st loc extensions featureDesc of
        (st', requested) \<Rightarrow>
          if requested then st'
          else if length extensions = 1
          then error st' loc ''required extension not requested:'' featureDesc (extensions ! 0)
          else foldl (\<lambda>s e. message s EPrefixNone e None)
                 (error st' loc ''required extension not requested:'' featureDesc
                    ''Possible extensions include:'')
                 extensions)"

definition ppRequireExtensions ::
  "TParseVersions \<Rightarrow> TSourceLoc \<Rightarrow> string list \<Rightarrow> string \<Rightarrow> TParseVersions" where
  "ppRequireExtensions st loc extensions featureDesc =
     (case checkExtensionsRequested st loc extensions featureDesc of
        (st', requested) \<Rightarrow>
          if requested then st'
          else if length extensions = 1
          then ppError st' loc ''required extension not requested:'' featureDesc (extensions ! 0)
          else foldl (\<lambda>s e. message s EPrefixNone e None)
                 (ppError st' loc ''required extension not requested:'' featureDesc
                    ''Possible extensions include:'')
                 extensions)"

text \<open>Operations needing full integer, or double, support.\<close>

definition fullIntegerCheck :: "TParseVersions \<Rightarrow> TSourceLoc \<Rightarrow> string \<Rightarrow> TParseVersions" where
  "fullIntegerCheck st loc op =
     profileRequires1 (profileRequires1 st loc (profileBits ENoProfile) 130 None op)
       loc (profileBits EEsProfile) 300 None op"

definition doubleCheck :: "TParseVersions \<Rightarrow> TSourceLoc \<Rightarrow> string \<Rightarrow> TParseVersions" where
  "doubleCheck st loc op =
     (let st1 = requireProfile st loc (or (profileBits ECoreProfile) (profileBits ECompatibilityProfile)) op;
          st2 = profileRequires1 st1 loc (profileBits ECoreProfile) 400 None op
      in profileRequires1 st2 loc (profileBits ECompatibilityProfile) 400 None op)"

section \<open>The table of extension behaviours and its defaults\<close>

text \<open>
  Modelled from the spec: the extension name symbols \<open>E_GL_...\<close> are declared in Versions.h,
  which is not among the sources; as the comment at the head of Versions.cpp says, each symbol
  holds the extension's own name as a string.

  \<open>initializeExtensionBehavior\<close> assigns a default to each known extension, in the order of
  the lists below; the blocks under \<open>AMD_EXTENSIONS\<close> and \<open>NV_EXTENSIONS\<close> are assigned only
  when the build defines these macros, which the two flags \<open>amd\<close> and \<open>nv\<close> stand for.
\<close>

definition defaults_core :: "(string \<times> TExtensionBehavior) list" where
  "defaults_core =
     [(''GL_OES_texture_3D'', EBhDisable),
      (''GL_OES_standard_derivatives'', EBhDisable),
      (''GL_EXT_frag_depth'', EBhDisable),
      (''GL_OES_EGL_image_external'', EBhDisable),
      (''GL_EXT_shader_texture_lod'', EBhDisable),
      (''GL_EXT_shadow_samplers'', EBhDisable),
      (''GL_ARB_texture_rectangle'', EBhDisable),
      (''GL_3DL_array_objects'', EBhDisable),
      (''GL_ARB_shading_language_420pack'', EBhDisable),
      (''GL_ARB_texture_gather'', EBhDisable),
      (''GL_ARB_gpu_shader5'', EBhDisablePartial),
      (''GL_ARB_separate_shader_objects'', EBhDisable),
      (''GL_ARB_compute_shader'', EBhDisable),
      (''GL_ARB_tessellation_shader'', EBhDisable),
      (''GL_ARB_enhanced_layouts'', EBhDisable),
      (''GL_ARB_texture_cube_map_array'', EBhDisable),
      (''GL_ARB_shader_texture_lod'', EBhDisable),
      (''GL_ARB_explicit_attrib_location'', EBhDisable),
      (''GL_ARB_shader_image_load_store'', EBhDisable),
      (''GL_ARB_shader_atomic_counters'', EBhDisable),
      (''GL_ARB_shader_draw_parameters'', EBhDisable),
      (''GL_ARB_shader_group_vote'', EBhDisable),
      (''GL_ARB_derivative_control'', EBhDisable),
      (''GL_ARB_shader_texture_image_samples'', EBhDisable),
      (''GL_ARB_viewport_array'', EBhDisable),
      (''GL_ARB_gpu_shader_int64'', EBhDisable),
      (''GL_ARB_shader_ballot'', EBhDisable),
      (''GL_ARB_sparse_texture2'', EBhDisable),
      (''GL_ARB_sparse_texture_clamp'', EBhDisable),
      (''GL_ARB_shader_stencil_export'', EBhDisable),
      (''GL_ARB_post_depth_coverage'', EBhDisable),
      (''GL_ARB_shader_viewport_layer_array'', EBhDisable),
      (''GL_EXT_shader_non_constant_global_initializers'', EBhDisable),
      (''GL_EXT_shader_image_load_formatted'', EBhDisable),
      (''GL_EXT_post_depth_coverage'', EBhDisable),
      (''GL_GOOGLE_cpp_style_line_directive'', EBhDisable),
      (''GL_GOOGLE_include_directive'', EBhDisable)]"

definition defaults_amd :: "(string \<times> TExtensionBehavior) list" where
  "defaults_amd =
     [(''GL_AMD_shader_ballot'', EBhDisable),
      (''GL_AMD_shader_trinary_minmax'', EBhDisable),
      (''GL_AMD_shader_explicit_vertex_parameter'', EBhDisable),
      (''GL_AMD_gcn_shader'', EBhDisable),
      (''GL_AMD_gpu_shader_half_float'', EBhDisable),
      (''GL_AMD_texture_gather_bias_lod'', EBhDisable),
      (''GL_AMD_gpu_shader_int16'', EBhDisable),
      (''GL_AMD_shader_image_load_store_lod'', EBhDisable)]"

definition defaults_nv :: "(string \<times> TExtensionBehavior) list" where
  "defaults_nv =
     [(''GL_NV_sample_mask_override_coverage'', EBhDisable),
      (''GL_NV_geometry_shader_passthrough'', EBhDisable),
      (''GL_NV_viewport_array2'', EBhDisable),
      (''GL_NV_stereo_view_rendering'', EBhDisable),
      (''GL_NVX_multiview_per_view_attributes'', EBhDisable)]"

definition defaults_aep :: "(string \<times> TExtensionBehavior) list" where
  "defaults_aep =
     [(''GL_ANDROID_extension_pack_es31a'', EBhDisable),
      (''GL_KHR_blend_equation_advanced'', EBhDisable),
      (''GL_OES_sample_variables'', EBhDisable),
      (''GL_OES_shader_image_atomic'', EBhDisable),
      (''GL_OES_shader_multisample_interpolation'', EBhDisable),
      (''GL_OES_texture_storage_multisample_2d_array'', EBhDisable),
      (''GL_EXT_geometry_shader'', EBhDisable),
      (''GL_EXT_geometry_point_size'', EBhDisable),
      (''GL_EXT_gpu_shader5'', EBhDisable),
      (''GL_EXT_primitive_bounding_box'', EBhDisable),
      (''GL_EXT_shader_io_blocks'', EBhDisable),
      (''GL_EXT_tessellation_shader'', EBhDisable),
      (''GL_EXT_tessellation_point_size'', EBhDisable),
      (''GL_EXT_texture_buffer'', EBhDisable),
      (''GL_EXT_texture_cube_map_array'', EBhDisable),
      (''GL_OES_geometry_shader'', EBhDisable),
      (''GL_OES_geometry_point_size'', EBhDisable),
      (''GL_OES_gpu_shader5'', EBhDisable),
      (''GL_OES_primitive_bounding_box'', EBhDisable),
      (''GL_OES_shader_io_blocks'', EBhDisable),
      (''GL_OES_tessellation_shader'', EBhDisable),
      (''GL_OES_tessellation_point_size'', EBhDisable),
      (''GL_OES_texture_buffer'', EBhDisable),
      (''GL_OES_texture_cube_map_array'', EBhDisable),
      (''GL_EXT_device_group'', EBhDisable),
      (''GL_EXT_multiview'', EBhDisable),
      (''GL_OVR_multiview'', EBhDisable),
      (''GL_OVR_multiview2'', EBhDisable)]"

definition defaults :: "bool \<Rightarrow> bool \<Rightarrow> (string \<times> TExtensionBehavior) list" where
  "defaults amd nv =
     defaults_core @ (if amd then defaults_amd else []) @ (if nv then defaults_nv else []) @ defaults_aep"

definition initializeExtensionBehavior :: "bool \<Rightarrow> bool \<Rightarrow> TParseVersions \<Rightarrow> TParseVersions" where
  "initializeExtensionBehavior amd nv st =
     st\<lparr>extensionBehavior := foldl (\<lambda>m (k, v). m(k \<mapsto> v)) (extensionBehavior st) (defaults amd nv)\<rparr>"

text \<open>The Registry: the names the tool knows, that is, the keys given a default.\<close>

definition Registry :: "bool \<Rightarrow> bool \<Rightarrow> string set" where
  "Registry amd nv = set (map fst (defaults amd nv))"

text \<open>
  A compile unit at its start: profile and version fixed, no flag set, the table holding the
  defaults and nothing reported yet.
\<close>

definition startUnit :: "bool \<Rightarrow> bool \<Rightarrow> EProfile \<Rightarrow> int \<Rightarrow> TParseVersions" where
  "startUnit amd nv p v =
     initializeExtensionBehavior amd nv
       \<lparr>profile = p, version = v, forwardCompatible = False, suppressWarnings = False,
        relaxedErrors = False, spvVersion = \<lparr>spv = 0, vulkanGlsl = 0, vulkan = 0, openGl = 0\<rparr>,
        extensionBehavior = Map.empty, currentLoc = 0, requestedExtensions = {}, infoSink = []\<rparr>"

section \<open>The preamble\<close>

text \<open>
  The text assigned to \<open>preamble\<close> for the ES profile, and for the other profiles (with the
  lines under \<open>AMD_EXTENSIONS\<close> and \<open>NV_EXTENSIONS\<close> apart).
\<close>

definition preamble_es :: string where
  "preamble_es =
     ''#define GL_ES 1\<newline>'' @
     ''#define GL_FRAGMENT_PRECISION_HIGH 1\<newline>'' @
     ''#define GL_OES_texture_3D 1\<newline>'' @
     ''#define GL_OES_standard_derivatives 1\<newline>'' @
     ''#define GL_EXT_frag_depth 1\<newline>'' @
     ''#define GL_OES_EGL_image_external 1\<newline>'' @
     ''#define GL_EXT_shader_texture_lod 1\<newline>'' @
     ''#define GL_EXT_shadow_samplers 1\<newline>'' @
     ''#define GL_ANDROID_extension_pack_es31a 1\<newline>'' @
     ''#define GL_KHR_blend_equation_advanced 1\<newline>'' @
     ''#define GL_OES_sample_variables 1\<newline>'' @
     ''#define GL_OES_shader_image_atomic 1\<newline>'' @
     ''#define GL_OES_shader_multisample_interpolation 1\<newline>'' @
     ''#define GL_OES_texture_storage_multisample_2d_array 1\<newline>'' @
     ''#define GL_EXT_geometry_shader 1\<newline>'' @
     ''#define GL_EXT_geometry_point_size 1\<newline>'' @
     ''#define GL_EXT_gpu_shader5 1\<newline>'' @
     ''#define GL_EXT_primitive_bounding_box 1\<newline>'' @
     ''#define GL_EXT_shader_io_blocks 1\<newline>'' @
     ''#define GL_EXT_tessellation_shader 1\<newline>'' @
     ''#define GL_EXT_tessellation_point_size 1\<newline>'' @
     ''#define GL_EXT_texture_buffer 1\<newline>'' @
     ''#define GL_EXT_texture_cube_map_array 1\<newline>'' @
     ''#define GL_OES_geometry_shader 1\<newline>'' @
     ''#define GL_OES_geometry_point_size 1\<newline>'' @
     ''#define GL_OES_gpu_shader5 1\<newline>'' @
     ''#define GL_OES_primitive_bounding_box 1\<newline>'' @
     ''#define GL_OES_shader_io_blocks 1\<newline>'' @
     ''#define GL_OES_tessellation_shader 1\<newline>'' @
     ''#define GL_OES_tessellation_point_size 1\<newline>'' @
     ''#define GL_OES_texture_buffer 1\<newline>'' @
     ''#define GL_OES_texture_cube_map_array 1\<newline>'' @
     ''#define GL_EXT_shader_non_constant_global_initializers 1\<newline>''"

definition preamble_desktop :: string where
  "preamble_desktop =
     ''#define GL_FRAGMENT_PRECISION_HIGH 1\<newline>'' @
     ''#define GL_ARB_texture_rectangle 1\<newline>'' @
     ''#define GL_ARB_shading_language_420pack 1\<newline>'' @
     ''#define GL_ARB_texture_gather 1\<newline>'' @
     ''#define GL_ARB_gpu_shader5 1\<newline>'' @
     ''#define GL_ARB_separate_shader_objects 1\<newline>'' @
     ''#define GL_ARB_compute_shader 1\<newline>'' @
     ''#define GL_ARB_tessellation_shader 1\<newline>'' @
     ''#define GL_ARB_enhanced_layouts 1\<newline>'' @
     ''#define GL_ARB_texture_cube_map_array 1\<newline>'' @
     ''#define GL_ARB_shader_texture_lod 1\<newline>'' @
     ''#define GL_ARB_explicit_attrib_location 1\<newline>'' @
     ''#define GL_ARB_shader_image_load_store 1\<newline>'' @
     ''#define GL_ARB_shader_atomic_counters 1\<newline>'' @
     ''#define GL_ARB_shader_draw_parameters 1\<newline>'' @
     ''#define GL_ARB_shader_group_vote 1\<newline>'' @
     ''#define GL_ARB_derivative_control 1\<newline>'' @
     ''#define GL_ARB_shader_texture_image_samples 1\<newline>'' @
     ''#define GL_ARB_viewport_array 1\<newline>'' @
     ''#define GL_ARB_gpu_shader_int64 1\<newline>'' @
     ''#define GL_ARB_shader_ballot 1\<newline>'' @
     ''#define GL_ARB_sparse_texture2 1\<newline>'' @
     ''#define GL_ARB_sparse_texture_clamp 1\<newline>'' @
     ''#define GL_ARB_shader_stencil_export 1\<newline>'' @
     ''#define GL_ARB_post_depth_coverage 1\<newline>'' @
     ''#define GL_EXT_shader_non_constant_global_initializers 1\<newline>'' @
     ''#define GL_EXT_shader_image_load_formatted 1\<newline>'' @
     ''#define GL_EXT_post_depth_coverage 1\<newline>''"

definition preamble_amd :: string where
  "preamble_amd =
     ''#define GL_AMD_shader_ballot 1\<newline>'' @
     ''#define GL_AMD_shader_trinary_minmax 1\<newline>'' @
     ''#define GL_AMD_shader_explicit_vertex_parameter 1\<newline>'' @
     ''#define GL_AMD_gcn_shader 1\<newline>'' @
     ''#define GL_AMD_gpu_shader_half_float 1\<newline>'' @
     ''#define GL_AMD_texture_gather_bias_lod 1\<newline>'' @
     ''#define GL_AMD_gpu_shader_int16 1\<newline>'' @
     ''#define GL_AMD_shader_image_load_store_lod 1\<newline>''"

definition preamble_nv :: string where
  "preamble_nv =
     ''#define GL_NV_sample_mask_override_coverage 1\<newline>'' @
     ''#define GL_NV_geometry_shader_passthrough 1\<newline>'' @
     ''#define GL_NV_viewport_array2 1\<newline>''"

definition numberBufSize :: nat where
  "numberBufSize = 12"

text \<open>
  \<open>getPreamble\<close> assigns to its reference parameter, whose contents on entry are \<open>preamble0\<close>,
  and then appends to it.
\<close>

definition getPreamble :: "bool \<Rightarrow> bool \<Rightarrow> TParseVersions \<Rightarrow> string \<Rightarrow> string" where
  "getPreamble amd nv st preamble0 =
     (let p1 =
            (if profile st = EEsProfile then preamble_es
             else
               (let d = preamble_desktop @ (if amd then preamble_amd else []) @ (if nv then preamble_nv else [])
                in if version st \<ge> 150
                   then (let c = d @ ''#define GL_core_profile 1\<newline>''
                         in if profile st = ECompatibilityProfile
                            then c @ ''#define GL_compatibility_profile 1\<newline>''
                            else c)
                   else d));
          p2 = (if (profile st \<noteq> EEsProfile \<and> version st \<ge> 140)
                   \<or> (profile st = EEsProfile \<and> version st \<ge> 310)
                then p1 @ ''#define GL_EXT_device_group 1\<newline>'' @ ''#define GL_EXT_multiview 1\<newline>''
                else p1);
          p3 = (if version st \<ge> 300
                then p2 @ ''#define GL_OVR_multiview 1\<newline>'' @ ''#define GL_OVR_multiview2 1\<newline>''
                else p2);
          p4 = p3 @ ''#define GL_GOOGLE_cpp_style_line_directive 1\<newline>''
                  @ ''#define GL_GOOGLE_include_directive 1\<newline>'';
          p5 = (if vulkanGlsl (spvVersion st) > 0
                then p4 @ ''#define VULKAN '' @ snprintf_d numberBufSize (vulkanGlsl (spvVersion st))
                        @ ''\<newline>''
                else p4);
          p6 = (if openGl (spvVersion st) > 0
                then p5 @ ''#define GL_SPIRV '' @ snprintf_d numberBufSize (openGl (spvVersion st))
                        @ ''\<newline>''
                else p5)
      in p6)"

section \<open>Changing the behaviour of an extension\<close>

text \<open>
  The update of one extension, or of all. In the branch for a name that is not in the table,
  a behaviour other than the four a directive can ask for hits \<open>assert(0)\<close>: the result
  \<open>None\<close>.
\<close>

definition updateExtensionBehavior ::
  "TParseVersions \<Rightarrow> string \<Rightarrow> TExtensionBehavior \<Rightarrow> TParseVersions option" where
  "updateExtensionBehavior st extension behavior =
     (if extension = ''all'' then
        (if behavior = EBhRequire \<or> behavior = EBhEnable
         then Some (error st (currentLoc st)
                ''extension 'all' cannot have 'require' or 'enable' behavior'' ''#extension'' [])
         else Some (st\<lparr>extensionBehavior :=
                (\<lambda>k. map_option (\<lambda>_. behavior) (extensionBehavior st k))\<rparr>))
      else
        (case extensionBehavior st extension of
           None \<Rightarrow>
             (case behavior of
                EBhRequire \<Rightarrow>
                  Some (error st (currentLoc st) ''extension not supported:'' ''#extension'' extension)
              | EBhEnable \<Rightarrow>
                  Some (warn st (currentLoc st) ''extension not supported:'' ''#extension'' extension)
              | EBhWarn \<Rightarrow>
                  Some (warn st (currentLoc st) ''extension not supported:'' ''#extension'' extension)
              | EBhDisable \<Rightarrow>
                  Some (warn st (currentLoc st) ''extension not supported:'' ''#extension'' extension)
              | _ \<Rightarrow> None)
         | Some stored \<Rightarrow>
             (let st1 = (if stored = EBhDisablePartial
                         then warn st (currentLoc st) ''extension is only partially supported:''
                                ''#extension'' extension
                         else st);
                  st2 = (if behavior = EBhEnable \<or> behavior = EBhRequire
                         then st1\<lparr>requestedExtensions := insert extension (requestedExtensions st1)\<rparr>
                         else st1)
              in Some (st2\<lparr>extensionBehavior := (extensionBehavior st2)(extension \<mapsto> behavior)\<rparr>))))"

text \<open>The translation of the behaviour's text at the head of the directive's entry point.\<close>

definition behaviorOfString :: "string \<Rightarrow> TExtensionBehavior option" where
  "behaviorOfString behaviorString =
     (if behaviorString = ''require'' then Some EBhRequire
      else if behaviorString = ''enable'' then Some EBhEnable
      else if behaviorString = ''disable'' then Some EBhDisable
      else if behaviorString = ''warn'' then Some EBhWarn
      else None)"

text \<open>How many levels of further directives a name sets off: the measure of the recursion.\<close>

definition propagationDepth :: "string \<Rightarrow> nat" where
  "propagationDepth extension =
     (if extension = ''GL_ANDROID_extension_pack_es31a'' then 2
      else if extension = ''GL_EXT_geometry_shader'' then 1
      else if extension = ''GL_OES_geometry_shader'' then 1
      else if extension = ''GL_EXT_tessellation_shader'' then 1
      else if extension = ''GL_OES_tessellation_shader'' then 1
      else if extension = ''GL_GOOGLE_include_directive'' then 1
      else 0)"

text \<open>
  The entry point of the \<open>#extension\<close> directive: it updates the named extension and then
  calls itself for what the name implies.
\<close>

function updateExtensionBehavior_line ::
  "TParseVersions \<Rightarrow> int \<Rightarrow> string \<Rightarrow> string \<Rightarrow> TParseVersions option" where
  "updateExtensionBehavior_line st line extension behaviorString =
     (case behaviorOfString behaviorString of
        None \<Rightarrow>
          Some (error st (currentLoc st) ''behavior not supported:'' ''#extension'' behaviorString)
      | Some behavior \<Rightarrow>
          do {
            st0 \<leftarrow> updateExtensionBehavior st extension behavior;
            if extension = ''GL_ANDROID_extension_pack_es31a'' then
              do {
                st1 \<leftarrow> updateExtensionBehavior_line st0 line ''GL_KHR_blend_equation_advanced'' behaviorString;
                st2 \<leftarrow> updateExtensionBehavior_line st1 line ''GL_OES_sample_variables'' behaviorString;
                st3 \<leftarrow> updateExtensionBehavior_line st2 line ''GL_OES_shader_image_atomic'' behaviorString;
                st4 \<leftarrow> updateExtensionBehavior_line st3 line ''GL_OES_shader_multisample_interpolation'' behaviorString;
                st5 \<leftarrow> updateExtensionBehavior_line st4 line ''GL_OES_texture_storage_multisample_2d_array'' behaviorString;
                st6 \<leftarrow> updateExtensionBehavior_line st5 line ''GL_EXT_geometry_shader'' behaviorString;
                st7 \<leftarrow> updateExtensionBehavior_line st6 line ''GL_EXT_gpu_shader5'' behaviorString;
                st8 \<leftarrow> updateExtensionBehavior_line st7 line ''GL_EXT_primitive_bounding_box'' behaviorString;
                st9 \<leftarrow> updateExtensionBehavior_line st8 line ''GL_EXT_shader_io_blocks'' behaviorString;
                st10 \<leftarrow> updateExtensionBehavior_line st9 line ''GL_EXT_tessellation_shader'' behaviorString;
                st11 \<leftarrow> updateExtensionBehavior_line st10 line ''GL_EXT_texture_buffer'' behaviorString;
                updateExtensionBehavior_line st11 line ''GL_EXT_texture_cube_map_array'' behaviorString
              }
            else if extension = ''GL_EXT_geometry_shader'' then
              updateExtensionBehavior_line st0 line ''GL_EXT_shader_io_blocks'' behaviorString
            else if extension = ''GL_OES_geometry_shader'' then
              updateExtensionBehavior_line st0 line ''GL_OES_shader_io_blocks'' behaviorString
            else if extension = ''GL_EXT_tessellation_shader'' then
              updateExtensionBehavior_line st0 line ''GL_EXT_shader_io_blocks'' behaviorString
            else if extension = ''GL_OES_tessellation_shader'' then
              updateExtensionBehavior_line st0 line ''GL_OES_shader_io_blocks'' behaviorString
            else if extension = ''GL_GOOGLE_include_directive'' then
              updateExtensionBehavior_line st0 line ''GL_GOOGLE_cpp_style_line_directive'' behaviorString
            else Some st0
          })"
  by pat_completeness auto
termination
  by (relation "measure (\<lambda>(st, line, extension, behaviorString). propagationDepth extension)")
     (auto simp add: propagationDepth_def)

declare updateExtensionBehavior_line.simps [simp del]

section \<open>Notions used to state the properties\<close>

text \<open>The usage warning that both loops over an extension list write for an extension that warns.\<close>

definition usageWarning :: "TSourceLoc \<Rightarrow> string \<Rightarrow> string \<Rightarrow> diagnostic" where
  "usageWarning loc featureDesc e =
     InfoMessage EPrefixWarning (''extension '' @ e @ '' is being used for '' @ featureDesc) (Some loc)"

text \<open>
  The names that the directive's entry point goes on to after updating \<open>extension\<close>, in the
  order of its calls: the edges of the implication graph, read off its branches.
\<close>

definition implied :: "string \<Rightarrow> string list" where
  "implied extension =
     (if extension = ''GL_ANDROID_extension_pack_es31a'' then
        [''GL_KHR_blend_equation_advanced'', ''GL_OES_sample_variables'', ''GL_OES_shader_image_atomic'',
         ''GL_OES_shader_multisample_interpolation'', ''GL_OES_texture_storage_multisample_2d_array'',
         ''GL_EXT_geometry_shader'', ''GL_EXT_gpu_shader5'', ''GL_EXT_primitive_bounding_box'',
         ''GL_EXT_shader_io_blocks'', ''GL_EXT_tessellation_shader'', ''GL_EXT_texture_buffer'',
         ''GL_EXT_texture_cube_map_array'']
      else if extension = ''GL_EXT_geometry_shader'' then [''GL_EXT_shader_io_blocks'']
      else if extension = ''GL_OES_geometry_shader'' then [''GL_OES_shader_io_blocks'']
      else if extension = ''GL_EXT_tessellation_shader'' then [''GL_EXT_shader_io_blocks'']
      else if extension = ''GL_OES_tessellation_shader'' then [''GL_OES_shader_io_blocks'']
      else if extension = ''GL_GOOGLE_include_directive'' then [''GL_GOOGLE_cpp_style_line_directive'']
      else [])"

definition implicationEdge :: "string \<Rightarrow> string \<Rightarrow> bool" where
  "implicationEdge a b \<longleftrightarrow> b \<in> set (implied a)"

text \<open>A sequence of single updates with one behaviour, stopping at a failed assertion.\<close>

fun updateEach :: "TParseVersions \<Rightarrow> string list \<Rightarrow> TExtensionBehavior \<Rightarrow> TParseVersions option" where
  "updateEach st [] behavior = Some st"
| "updateEach st (e # es) behavior =
     Option.bind (updateExtensionBehavior st e behavior) (\<lambda>st'. updateEach st' es behavior)"

text \<open>
  The single updates that a directive for \<open>extension\<close> comes to, in order: the name itself, then
  each implied name followed by what that one implies.
\<close>

definition expansion :: "string \<Rightarrow> string list" where
  "expansion extension = extension # concat (map (\<lambda>e. e # implied e) (implied extension))"

text \<open>
  What the second loop of \<open>checkExtensionsRequested\<close> writes for one extension: the notice and
  the usage warning for a disabled extension under relaxed errors, the usage warning for one
  that warns.
\<close>

definition requireWarnings :: "TParseVersions \<Rightarrow> TSourceLoc \<Rightarrow> string \<Rightarrow> string \<Rightarrow> diagnostic list" where
  "requireWarnings st loc featureDesc e =
     (if getExtensionBehavior st e = EBhDisable \<and> relaxedErrors st
      then [InfoMessage EPrefixWarning
              ''The following extension must be enabled to use this feature:'' (Some loc),
            usageWarning loc featureDesc e]
      else if getExtensionBehavior st e = EBhWarn then [usageWarning loc featureDesc e]
      else [])"

text \<open>
  The macro-definition lines of a preamble text: the pieces that a newline ends (and a last
  piece without one, if any).
\<close>

fun macroLines :: "string \<Rightarrow> string list" where
  "macroLines [] = []"
| "macroLines (c # cs) =
     (if c = CHR ''\<newline>'' then [] # macroLines cs
      else (case macroLines cs of [] \<Rightarrow> [[c]] | l # ls \<Rightarrow> (c # l) # ls))"

definition unlines :: "string list \<Rightarrow> string" where
  "unlines ls = concat (map (\<lambda>l. l @ ''\<newline>'') ls)"

text \<open>The blocks of the preamble, line by line.\<close>

definition lines_es :: "string list" where
  "lines_es =
     [''#define GL_ES 1'',
      ''#define GL_FRAGMENT_PRECISION_HIGH 1'',
      ''#define GL_OES_texture_3D 1'',
      ''#define GL_OES_standard_derivatives 1'',
      ''#define GL_EXT_frag_depth 1'',
      ''#define GL_OES_EGL_image_external 1'',
      ''#define GL_EXT_shader_texture_lod 1'',
      ''#define GL_EXT_shadow_samplers 1'',
      ''#define GL_ANDROID_extension_pack_es31a 1'',
      ''#define GL_KHR_blend_equation_advanced 1'',
      ''#define GL_OES_sample_variables 1'',
      ''#define GL_OES_shader_image_atomic 1'',
      ''#define GL_OES_shader_multisample_interpolation 1'',
      ''#define GL_OES_texture_storage_multisample_2d_array 1'',
      ''#define GL_EXT_geometry_shader 1'',
      ''#define GL_EXT_geometry_point_size 1'',
      ''#define GL_EXT_gpu_shader5 1'',
      ''#define GL_EXT_primitive_bounding_box 1'',
      ''#define GL_EXT_shader_io_blocks 1'',
      ''#define GL_EXT_tessellation_shader 1'',
      ''#define GL_EXT_tessellation_point_size 1'',
      ''#define GL_EXT_texture_buffer 1'',
      ''#define GL_EXT_texture_cube_map_array 1'',
      ''#define GL_OES_geometry_shader 1'',
      ''#define GL_OES_geometry_point_size 1'',
      ''#define GL_OES_gpu_shader5 1'',
      ''#define GL_OES_primitive_bounding_box 1'',
      ''#define GL_OES_shader_io_blocks 1'',
      ''#define GL_OES_tessellation_shader 1'',
      ''#define GL_OES_tessellation_point_size 1'',
      ''#define GL_OES_texture_buffer 1'',
      ''#define GL_OES_texture_cube_map_array 1'',
      ''#define GL_EXT_shader_non_constant_global_initializers 1'']"

definition lines_desktop :: "string list" where
  "lines_desktop =
     [''#define GL_FRAGMENT_PRECISION_HIGH 1'',
      ''#define GL_ARB_texture_rectangle 1'',
      ''#define GL_ARB_shading_language_420pack 1'',
      ''#define GL_ARB_texture_gather 1'',
      ''#define GL_ARB_gpu_shader5 1'',
      ''#define GL_ARB_separate_shader_objects 1'',
      ''#define GL_ARB_compute_shader 1'',
      ''#define GL_ARB_tessellation_shader 1'',
      ''#define GL_ARB_enhanced_layouts 1'',
      ''#define GL_ARB_texture_cube_map_array 1'',
      ''#define GL_ARB_shader_texture_lod 1'',
      ''#define GL_ARB_explicit_attrib_location 1'',
      ''#define GL_ARB_shader_image_load_store 1'',
      ''#define GL_ARB_shader_atomic_counters 1'',
      ''#define GL_ARB_shader_draw_parameters 1'',
      ''#define GL_ARB_shader_group_vote 1'',
      ''#define GL_ARB_derivative_control 1'',
      ''#define GL_ARB_shader_texture_image_samples 1'',
      ''#define GL_ARB_viewport_array 1'',
      ''#define GL_ARB_gpu_shader_int64 1'',
      ''#define GL_ARB_shader_ballot 1'',
      ''#define GL_ARB_sparse_texture2 1'',
      ''#define GL_ARB_sparse_texture_clamp 1'',
      ''#define GL_ARB_shader_stencil_export 1'',
      ''#define GL_ARB_post_depth_coverage 1'',
      ''#define GL_EXT_shader_non_constant_global_initializers 1'',
      ''#define GL_EXT_shader_image_load_formatted 1'',
      ''#define GL_EXT_post_depth_coverage 1'']"

definition lines_amd :: "string list" where
  "lines_amd =
     [''#define GL_AMD_shader_ballot 1'',
      ''#define GL_AMD_shader_trinary_minmax 1'',
      ''#define GL_AMD_shader_explicit_vertex_parameter 1'',
      ''#define GL_AMD_gcn_shader 1'',
      ''#define GL_AMD_gpu_shader_half_float 1'',
      ''#define GL_AMD_texture_gather_bias_lod 1'',
      ''#define GL_AMD_gpu_shader_int16 1'',
      ''#define GL_AMD_shader_image_load_store_lod 1'']"

definition lines_nv :: "string list" where
  "lines_nv =
     [''#define GL_NV_sample_mask_override_coverage 1'',
      ''#define GL_NV_geometry_shader_passthrough 1'',
      ''#define GL_NV_viewport_array2 1'']"

text \<open>The lines of the whole preamble, by the conditions of \<open>getPreamble\<close>.\<close>

definition preambleLines :: "bool \<Rightarrow> bool \<Rightarrow> TParseVersions \<Rightarrow> string list" where
  "preambleLines amd nv st =
     (if profile st = EEsProfile then lines_es
      else lines_desktop @ (if amd then lines_amd else []) @ (if nv then lines_nv else [])
           @ (if version st \<ge> 150
              then ''#define GL_core_profile 1''
                   # (if profile st = ECompatibilityProfile then [''#define GL_compatibility_profile 1'']
                      else [])
              else []))
     @ (if (profile st \<noteq> EEsProfile \<and> version st \<ge> 140) \<or> (profile st = EEsProfile \<and> version st \<ge> 310)
        then [''#define GL_EXT_device_group 1'', ''#define GL_EXT_multiview 1''] else [])
     @ (if version st \<ge> 300 then [''#define GL_OVR_multiview 1'', ''#define GL_OVR_multiview2 1''] else [])
     @ [''#define GL_GOOGLE_cpp_style_line_directive 1'', ''#define GL_GOOGLE_include_directive 1'']
     @ (if vulkanGlsl (spvVersion st) > 0
        then [''#define VULKAN '' @ snprintf_d numberBufSize (vulkanGlsl (spvVersion st))] else [])
     @ (if openGl (spvVersion st) > 0
        then [''#define GL_SPIRV '' @ snprintf_d numberBufSize (openGl (spvVersion st))] else [])"

text \<open>The members of the unit that \<open>getPreamble\<close> reads.\<close>

definition preambleInputs :: "TParseVersions \<Rightarrow> EProfile \<times> int \<times> int \<times> int" where
  "preambleInputs st = (profile st, version st, vulkanGlsl (spvVersion st), openGl (spvVersion st))"

section \<open>Membership of the active profile in a mask\<close>

lemma profile_in_mask: "and (profileBits p) P \<noteq> 0 \<longleftrightarrow> bit P (profileIndex p)"
  by (simp add: profileBits_def bit_iff_and_push_bit_not_eq_0 and.commute)

text \<open>A mask made of one profile holds that profile only.\<close>

lemma profileBits_bit: "bit (profileBits q) (profileIndex p) \<longleftrightarrow> p = q"
  by (cases p; cases q) (simp_all add: profileBits_def bit_push_bit_iff bit_1_iff)

lemma startUnit_fields:
  "profile (startUnit amd nv p v) = p"
  "version (startUnit amd nv p v) = v"
  "forwardCompatible (startUnit amd nv p v) = False"
  "suppressWarnings (startUnit amd nv p v) = False"
  "relaxedErrors (startUnit amd nv p v) = False"
  "currentLoc (startUnit amd nv p v) = 0"
  "infoSink (startUnit amd nv p v) = []"
  "spvVersion (startUnit amd nv p v) = \<lparr>spv = 0, vulkanGlsl = 0, vulkan = 0, openGl = 0\<rparr>"
  by (simp_all add: startUnit_def initializeExtensionBehavior_def)

section \<open>requireProfile\<close>

text \<open>
  C9. For every mask \<open>P\<close> and active profile, \<open>requireProfile\<close> appends exactly one profile
  error when the bit of the active profile is not set in \<open>P\<close>, and leaves the unit as it is when
  the bit is set. Neither the version nor the table of behaviours occurs in the result.
\<close>

theorem requireProfile_error_iff:
  "requireProfile st loc P featureDesc =
     (if bit P (profileIndex (profile st)) then st
      else st\<lparr>infoSink := infoSink st @
             [ErrorCall loc ''not supported with this profile:'' featureDesc (ProfileName (profile st))]\<rparr>)"
  using profile_in_mask [of "profile st" P]
  by (auto simp add: requireProfile_def error_def)

theorem requireProfile_error_iff_witness:
  "infoSink (requireProfile (startUnit True True EEsProfile 310) 7 6 ''double'') =
     [ErrorCall 7 ''not supported with this profile:'' ''double'' ''es'']
   \<and> requireProfile (startUnit True True ECoreProfile 310) 7 6 ''double'' =
       startUnit True True ECoreProfile 310"
  by (simp add: requireProfile_error_iff startUnit_fields eval_nat_numeral)

section \<open>checkDeprecated\<close>

text \<open>
  C7. \<open>checkDeprecated\<close> reports nothing when the active profile is not in the mask or the
  version is below the deprecation version; otherwise it reports an error when
  \<open>forwardCompatible\<close> is set, and else a warning unless warnings are suppressed, in which case
  it reports nothing.
\<close>

theorem checkDeprecated_cases:
  "checkDeprecated st loc P depVersion featureDesc =
     (if \<not> bit P (profileIndex (profile st)) \<or> version st < depVersion then st
      else if forwardCompatible st
      then st\<lparr>infoSink := infoSink st @
             [ErrorCall loc ''deprecated, may be removed in future release'' featureDesc []]\<rparr>
      else if suppressWarnings st then st
      else st\<lparr>infoSink := infoSink st @
             [InfoMessage EPrefixWarning
                (featureDesc @ '' deprecated in version '' @ String_int depVersion
                   @ ''; may be removed in future release'') (Some loc)]\<rparr>)"
  using profile_in_mask [of "profile st" P]
  by (auto simp add: checkDeprecated_def error_def message_def)

theorem checkDeprecated_cases_witness:
  "infoSink (checkDeprecated ((startUnit True True ECoreProfile 330)\<lparr>forwardCompatible := True\<rparr>)
      3 2 130 ''attribute'') =
     [ErrorCall 3 ''deprecated, may be removed in future release'' ''attribute'' []]
   \<and> infoSink (checkDeprecated ((startUnit True True ECoreProfile 330)\<lparr>suppressWarnings := True\<rparr>)
      3 2 130 ''attribute'') = []
   \<and> infoSink (checkDeprecated (startUnit True True ECoreProfile 120) 3 2 130 ''attribute'') = []"
  by (simp add: checkDeprecated_cases startUnit_fields eval_nat_numeral)

section \<open>profileRequires\<close>

lemma getExtensionBehavior_message [simp]:
  "getExtensionBehavior (message st prefix s l) e = getExtensionBehavior st e"
  by (simp add: getExtensionBehavior_def message_def)

lemma profileRequires_loop_eq:
  "profileRequires_loop st loc es featureDesc okay =
     (st\<lparr>infoSink := infoSink st @
            map (usageWarning loc featureDesc) (filter (\<lambda>e. getExtensionBehavior st e = EBhWarn) es)\<rparr>,
      okay \<or> (\<exists>e \<in> set es. getExtensionBehavior st e \<in> {EBhEnable, EBhRequire, EBhWarn}))"
proof (induction es arbitrary: st okay)
  case Nil
  show ?case by simp
next
  case (Cons e es)
  show ?case
    by (cases "getExtensionBehavior st e")
       (auto simp add: Cons.IH message_def usageWarning_def getExtensionBehavior_def)
qed

lemma turned_on_stored:
  "getExtensionBehavior st e \<in> {EBhEnable, EBhRequire, EBhWarn} \<longleftrightarrow>
   extensionBehavior st e \<in> {Some EBhEnable, Some EBhRequire, Some EBhWarn}"
  by (auto simp add: getExtensionBehavior_def split: option.splits)

lemma warn_stored:
  "getExtensionBehavior st e = EBhWarn \<longleftrightarrow> extensionBehavior st e = Some EBhWarn"
  by (auto simp add: getExtensionBehavior_def split: option.splits)

text \<open>
  C3. \<open>profileRequires\<close> leaves the unit as it is when the active profile is not in the mask.
  When it is, the call writes a usage warning for each listed extension stored as warn, and
  then no error exactly when \<open>minVersion > 0\<close> and the version reaches it, or some listed
  extension is stored as enable, require or warn; otherwise exactly one error.
\<close>

theorem profileRequires_permits_iff:
  "profileRequires st loc P minVersion extensions featureDesc =
     (if \<not> bit P (profileIndex (profile st)) then st
      else st\<lparr>infoSink := infoSink st
             @ map (usageWarning loc featureDesc)
                 (filter (\<lambda>e. extensionBehavior st e = Some EBhWarn) extensions)
             @ (if (0 < minVersion \<and> minVersion \<le> version st)
                   \<or> (\<exists>e \<in> set extensions.
                         extensionBehavior st e \<in> {Some EBhEnable, Some EBhRequire, Some EBhWarn})
                then []
                else [ErrorCall loc ''not supported for this version or the enabled extensions''
                        featureDesc []])\<rparr>)"
  using profile_in_mask [of "profile st" P]
  by (simp add: profileRequires_def profileRequires_loop_eq error_def turned_on_stored warn_stored
        del: insert_iff)

theorem profileRequires_permits_iff_witness:
  "infoSink (profileRequires
       ((startUnit True True ECoreProfile 330)\<lparr>extensionBehavior := [''GL_ARB_gpu_shader5'' \<mapsto> EBhEnable]\<rparr>)
       5 2 400 [''GL_ARB_gpu_shader5''] ''feature'') = []
   \<and> infoSink (profileRequires
       ((startUnit True True ECoreProfile 330)\<lparr>extensionBehavior := [''GL_ARB_gpu_shader5'' \<mapsto> EBhWarn]\<rparr>)
       5 2 400 [''GL_ARB_gpu_shader5''] ''feature'') = [usageWarning 5 ''feature'' ''GL_ARB_gpu_shader5'']
   \<and> infoSink (profileRequires
       ((startUnit True True ECoreProfile 330)\<lparr>extensionBehavior := [''GL_ARB_gpu_shader5'' \<mapsto> EBhDisable]\<rparr>)
       5 2 400 [''GL_ARB_gpu_shader5''] ''feature'') =
         [ErrorCall 5 ''not supported for this version or the enabled extensions'' ''feature'' []]
   \<and> infoSink (profileRequires
       ((startUnit True True EEsProfile 330)\<lparr>extensionBehavior := [''GL_ARB_gpu_shader5'' \<mapsto> EBhDisable]\<rparr>)
       5 2 400 [''GL_ARB_gpu_shader5''] ''feature'') = []"
  by (simp add: profileRequires_permits_iff startUnit_fields eval_nat_numeral)

text \<open>
  C10. With \<open>minVersion = 0\<close> and no extension (the null pointer of the single-extension entry
  point, or an empty list), \<open>profileRequires\<close> writes the error whenever the active profile is
  in the mask, whatever the version; the table of behaviours is not changed, and replacing it
  by any other table changes nothing else in the result.
\<close>

theorem profileRequires_nothing_given:
  "(bit P (profileIndex (profile st)) \<longrightarrow>
      profileRequires1 st loc P 0 None featureDesc =
        st\<lparr>infoSink := infoSink st @
          [ErrorCall loc ''not supported for this version or the enabled extensions'' featureDesc []]\<rparr>
      \<and> profileRequires st loc P 0 [] featureDesc = profileRequires1 st loc P 0 None featureDesc)
   \<and> extensionBehavior (profileRequires1 st loc P 0 None featureDesc) = extensionBehavior st
   \<and> profileRequires1 (st\<lparr>extensionBehavior := m\<rparr>) loc P 0 None featureDesc =
       (profileRequires1 st loc P 0 None featureDesc)\<lparr>extensionBehavior := m\<rparr>"
  using profile_in_mask [of "profile st" P]
  by (simp add: profileRequires1_def profileRequires_def error_def)

theorem profileRequires_nothing_given_witness:
  "bit (1::int) (profileIndex (profile (startUnit True True ENoProfile 450)))
   \<and> infoSink (profileRequires1 (startUnit True True ENoProfile 450) 9 1 0 None ''integers'') =
       [ErrorCall 9 ''not supported for this version or the enabled extensions'' ''integers'' []]"
  using profileRequires_nothing_given [of 1 "startUnit True True ENoProfile 450" 9 "''integers''" Map.empty]
  by (simp add: startUnit_fields)

section \<open>The directive as a sequence of single updates\<close>

lemma implied_leaf:
  "implied ext = [] \<Longrightarrow> ext \<noteq> ''GL_ANDROID_extension_pack_es31a'' \<and> ext \<noteq> ''GL_EXT_geometry_shader''
     \<and> ext \<noteq> ''GL_OES_geometry_shader'' \<and> ext \<noteq> ''GL_EXT_tessellation_shader''
     \<and> ext \<noteq> ''GL_OES_tessellation_shader'' \<and> ext \<noteq> ''GL_GOOGLE_include_directive''"
  by (simp add: implied_def split: if_splits)

lemma line_leaf:
  assumes "implied ext = []" and "behaviorOfString bs = Some b"
  shows "updateExtensionBehavior_line st line ext bs = updateExtensionBehavior st ext b"
  using implied_leaf [OF assms(1)] assms(2)
  by (subst updateExtensionBehavior_line.simps) simp

lemma implied_leaves:
  "implied ''GL_EXT_shader_io_blocks'' = []" "implied ''GL_OES_shader_io_blocks'' = []"
  "implied ''GL_GOOGLE_cpp_style_line_directive'' = []"
  "implied ''GL_KHR_blend_equation_advanced'' = []"
  "implied ''GL_OES_sample_variables'' = []"
  "implied ''GL_OES_shader_image_atomic'' = []"
  "implied ''GL_OES_shader_multisample_interpolation'' = []"
  "implied ''GL_OES_texture_storage_multisample_2d_array'' = []"
  "implied ''GL_EXT_gpu_shader5'' = []"
  "implied ''GL_EXT_primitive_bounding_box'' = []"
  "implied ''GL_EXT_texture_buffer'' = []"
  "implied ''GL_EXT_texture_cube_map_array'' = []"
  by (simp_all add: implied_def)

lemma line_geometry:
  assumes "behaviorOfString bs = Some b"
  shows "updateExtensionBehavior_line st line ''GL_EXT_geometry_shader'' bs =
           updateEach st [''GL_EXT_geometry_shader'', ''GL_EXT_shader_io_blocks''] b"
  using assms
  by (subst updateExtensionBehavior_line.simps)
     (simp add: line_leaf implied_leaves split: option.splits Option.bind_splits)

lemma line_tessellation:
  assumes "behaviorOfString bs = Some b"
  shows "updateExtensionBehavior_line st line ''GL_EXT_tessellation_shader'' bs =
           updateEach st [''GL_EXT_tessellation_shader'', ''GL_EXT_shader_io_blocks''] b"
  using assms
  by (subst updateExtensionBehavior_line.simps)
     (simp add: line_leaf implied_leaves split: option.splits Option.bind_splits)

lemma line_geometry_oes:
  assumes "behaviorOfString bs = Some b"
  shows "updateExtensionBehavior_line st line ''GL_OES_geometry_shader'' bs =
           updateEach st [''GL_OES_geometry_shader'', ''GL_OES_shader_io_blocks''] b"
  using assms
  by (subst updateExtensionBehavior_line.simps)
     (simp add: line_leaf implied_leaves split: option.splits Option.bind_splits)

lemma line_tessellation_oes:
  assumes "behaviorOfString bs = Some b"
  shows "updateExtensionBehavior_line st line ''GL_OES_tessellation_shader'' bs =
           updateEach st [''GL_OES_tessellation_shader'', ''GL_OES_shader_io_blocks''] b"
  using assms
  by (subst updateExtensionBehavior_line.simps)
     (simp add: line_leaf implied_leaves split: option.splits Option.bind_splits)

lemma line_include:
  assumes "behaviorOfString bs = Some b"
  shows "updateExtensionBehavior_line st line ''GL_GOOGLE_include_directive'' bs =
           updateEach st [''GL_GOOGLE_include_directive'', ''GL_GOOGLE_cpp_style_line_directive''] b"
  using assms
  by (subst updateExtensionBehavior_line.simps)
     (simp add: line_leaf implied_leaves split: option.splits Option.bind_splits)

lemma line_aep:
  assumes "behaviorOfString bs = Some b"
  shows "updateExtensionBehavior_line st line ''GL_ANDROID_extension_pack_es31a'' bs =
           updateEach st
             [''GL_ANDROID_extension_pack_es31a'',
              ''GL_KHR_blend_equation_advanced'', ''GL_OES_sample_variables'', ''GL_OES_shader_image_atomic'',
              ''GL_OES_shader_multisample_interpolation'', ''GL_OES_texture_storage_multisample_2d_array'',
              ''GL_EXT_geometry_shader'', ''GL_EXT_shader_io_blocks'',
              ''GL_EXT_gpu_shader5'', ''GL_EXT_primitive_bounding_box'',
              ''GL_EXT_shader_io_blocks'',
              ''GL_EXT_tessellation_shader'', ''GL_EXT_shader_io_blocks'',
              ''GL_EXT_texture_buffer'', ''GL_EXT_texture_cube_map_array''] b"
  using assms
  by (subst updateExtensionBehavior_line.simps)
     (simp add: line_leaf line_geometry line_tessellation implied_leaves)

lemma trigger_cases:
  "ext = ''GL_ANDROID_extension_pack_es31a'' \<or> ext = ''GL_EXT_geometry_shader''
     \<or> ext = ''GL_OES_geometry_shader'' \<or> ext = ''GL_EXT_tessellation_shader''
     \<or> ext = ''GL_OES_tessellation_shader'' \<or> ext = ''GL_GOOGLE_include_directive''
     \<or> implied ext = []"
  by (simp add: implied_def)

lemma expansion_values:
  "expansion ''GL_ANDROID_extension_pack_es31a'' =
             [''GL_ANDROID_extension_pack_es31a'',
              ''GL_KHR_blend_equation_advanced'', ''GL_OES_sample_variables'', ''GL_OES_shader_image_atomic'',
              ''GL_OES_shader_multisample_interpolation'', ''GL_OES_texture_storage_multisample_2d_array'',
              ''GL_EXT_geometry_shader'', ''GL_EXT_shader_io_blocks'',
              ''GL_EXT_gpu_shader5'', ''GL_EXT_primitive_bounding_box'',
              ''GL_EXT_shader_io_blocks'',
              ''GL_EXT_tessellation_shader'', ''GL_EXT_shader_io_blocks'',
              ''GL_EXT_texture_buffer'', ''GL_EXT_texture_cube_map_array'']"
  "expansion ''GL_EXT_geometry_shader'' = [''GL_EXT_geometry_shader'', ''GL_EXT_shader_io_blocks'']"
  "expansion ''GL_OES_geometry_shader'' = [''GL_OES_geometry_shader'', ''GL_OES_shader_io_blocks'']"
  "expansion ''GL_EXT_tessellation_shader'' = [''GL_EXT_tessellation_shader'', ''GL_EXT_shader_io_blocks'']"
  "expansion ''GL_OES_tessellation_shader'' = [''GL_OES_tessellation_shader'', ''GL_OES_shader_io_blocks'']"
  "expansion ''GL_GOOGLE_include_directive'' =
     [''GL_GOOGLE_include_directive'', ''GL_GOOGLE_cpp_style_line_directive'']"
  by (simp_all add: expansion_def implied_def)

lemma line_expansion:
  assumes "behaviorOfString bs = Some b"
  shows "updateExtensionBehavior_line st line ext bs = updateEach st (expansion ext) b"
  using trigger_cases [of ext]
proof (elim disjE)
  assume "implied ext = []"
  then show ?thesis
    using assms by (simp add: line_leaf expansion_def)
qed (simp_all only: expansion_values line_aep [OF assms] line_geometry [OF assms]
       line_geometry_oes [OF assms] line_tessellation [OF assms] line_tessellation_oes [OF assms]
       line_include [OF assms])

lemma behaviorOfString_valid:
  "behaviorOfString tok = Some b \<Longrightarrow> b \<in> {EBhRequire, EBhEnable, EBhDisable, EBhWarn}"
  by (auto simp add: behaviorOfString_def split: if_splits)

lemma update_single:
  assumes "b \<in> {EBhRequire, EBhEnable, EBhDisable, EBhWarn}" and "e \<noteq> ''all''"
  shows "\<exists>st'. updateExtensionBehavior st e b = Some st'
           \<and> extensionBehavior st' = (\<lambda>k. if k = e \<and> k \<in> dom (extensionBehavior st) then Some b
                                          else extensionBehavior st k)"
  using assms
  by (auto simp add: updateExtensionBehavior_def error_def warn_def Let_def fun_eq_iff
        split: option.splits)

lemma updateEach_table:
  assumes "b \<in> {EBhRequire, EBhEnable, EBhDisable, EBhWarn}" and "''all'' \<notin> set es"
  shows "\<exists>st'. updateEach st es b = Some st'
           \<and> extensionBehavior st' = (\<lambda>k. if k \<in> set es \<and> k \<in> dom (extensionBehavior st) then Some b
                                          else extensionBehavior st k)"
  using assms(2)
proof (induction es arbitrary: st)
  case Nil
  show ?case by simp
next
  case (Cons e es)
  from Cons.prems have e: "e \<noteq> ''all''" and es: "''all'' \<notin> set es" by auto
  from update_single [OF assms(1) e, of st] obtain st1 where
    st1: "updateExtensionBehavior st e b = Some st1"
    "extensionBehavior st1 = (\<lambda>k. if k = e \<and> k \<in> dom (extensionBehavior st) then Some b
                                          else extensionBehavior st k)" by blast
  from Cons.IH [OF es, of st1] obtain st2 where
    st2: "updateEach st1 es b = Some st2"
    "extensionBehavior st2 = (\<lambda>k. if k \<in> set es \<and> k \<in> dom (extensionBehavior st1) then Some b
                                          else extensionBehavior st1 k)" by blast
  have "updateEach st (e # es) b = Some st2" using st1(1) st2(1) by simp
  moreover have "extensionBehavior st2 =
     (\<lambda>k. if k \<in> set (e # es) \<and> k \<in> dom (extensionBehavior st) then Some b else extensionBehavior st k)"
    unfolding st2(2) st1(2) by (auto simp add: fun_eq_iff dom_def)
  ultimately show ?case by blast
qed

lemma implied_values:
  "implied ''GL_ANDROID_extension_pack_es31a'' =
        [''GL_KHR_blend_equation_advanced'', ''GL_OES_sample_variables'', ''GL_OES_shader_image_atomic'',
         ''GL_OES_shader_multisample_interpolation'', ''GL_OES_texture_storage_multisample_2d_array'',
         ''GL_EXT_geometry_shader'', ''GL_EXT_gpu_shader5'', ''GL_EXT_primitive_bounding_box'',
         ''GL_EXT_shader_io_blocks'', ''GL_EXT_tessellation_shader'', ''GL_EXT_texture_buffer'',
         ''GL_EXT_texture_cube_map_array'']"
  "implied ''GL_EXT_geometry_shader'' = [''GL_EXT_shader_io_blocks'']"
  "implied ''GL_OES_geometry_shader'' = [''GL_OES_shader_io_blocks'']"
  "implied ''GL_EXT_tessellation_shader'' = [''GL_EXT_shader_io_blocks'']"
  "implied ''GL_OES_tessellation_shader'' = [''GL_OES_shader_io_blocks'']"
  "implied ''GL_GOOGLE_include_directive'' = [''GL_GOOGLE_cpp_style_line_directive'']"
  by (simp_all add: implied_def)

lemma implied_twice_leaf:
  "y \<in> set (implied x) \<Longrightarrow> z \<in> set (implied y) \<Longrightarrow> implied z = []"
  using trigger_cases [of x]
  by (elim disjE) (auto simp add: implied_values implied_leaves)

lemma all_not_implied: "''all'' \<notin> set (implied x)"
  using trigger_cases [of x]
  by (elim disjE) (auto simp add: implied_values)

lemma all_not_in_expansion: "ext \<noteq> ''all'' \<Longrightarrow> ''all'' \<notin> set (expansion ext)"
  using all_not_implied by (auto simp add: expansion_def)

lemma reach_in_expansion:
  "implicationEdge\<^sup>+\<^sup>+ x e \<Longrightarrow> e \<in> set (expansion x)"
proof (induction rule: tranclp_induct)
  case (base y)
  then show ?case by (auto simp add: implicationEdge_def expansion_def)
next
  case (step y z)
  from step.hyps(2) have z: "z \<in> set (implied y)" by (simp add: implicationEdge_def)
  from step.IH have "y = x \<or> y \<in> set (implied x) \<or> (\<exists>w \<in> set (implied x). y \<in> set (implied w))"
    by (auto simp add: expansion_def)
  then show ?case
  proof (elim disjE bexE)
    assume "y = x" with z show ?thesis by (auto simp add: expansion_def)
  next
    assume "y \<in> set (implied x)" with z show ?thesis by (auto simp add: expansion_def)
  next
    fix w assume "w \<in> set (implied x)" "y \<in> set (implied w)"
    then have "implied y = []" by (rule implied_twice_leaf)
    with z show ?thesis by simp
  qed
qed

section \<open>The Registry and the keys of the table\<close>

lemma dom_foldl_upd:
  "dom (foldl (\<lambda>m (k, v). m(k \<mapsto> v)) m xs) = dom m \<union> fst ` set xs"
  by (induction xs arbitrary: m) (auto split: prod.splits)

lemma dom_initialize:
  "dom (extensionBehavior (initializeExtensionBehavior amd nv st)) =
     dom (extensionBehavior st) \<union> Registry amd nv"
  by (simp add: initializeExtensionBehavior_def dom_foldl_upd Registry_def)

lemma dom_startUnit: "dom (extensionBehavior (startUnit amd nv p v)) = Registry amd nv"
  by (simp add: startUnit_def dom_initialize)

lemma Registry_startUnit: "Registry amd nv \<subseteq> dom (extensionBehavior (startUnit amd nv p v))"
  by (simp add: dom_startUnit)

lemma foldl_upd_map_of:
  "foldl (\<lambda>m (k, v). m(k \<mapsto> v)) m xs = m ++ map_of (rev xs)"
  by (induction xs arbitrary: m) (auto simp add: map_add_def fun_eq_iff split: option.splits)

lemma startUnit_table:
  "extensionBehavior (startUnit amd nv p v) = map_of (rev (defaults amd nv))"
  by (simp add: startUnit_def initializeExtensionBehavior_def foldl_upd_map_of)

lemma startUnit_examples:
  "extensionBehavior (startUnit amd nv p v) ''GL_OES_standard_derivatives'' = Some EBhDisable"
  "extensionBehavior (startUnit amd nv p v) ''GL_FOO_bar'' = None"
  by (simp_all add: startUnit_table defaults_def defaults_core_def defaults_amd_def defaults_nv_def
        defaults_aep_def)

lemma Registry_parts:
  "Registry amd nv = fst ` set defaults_core \<union> (if amd then fst ` set defaults_amd else {})
      \<union> (if nv then fst ` set defaults_nv else {}) \<union> fst ` set defaults_aep"
  by (auto simp add: Registry_def defaults_def)

lemma aep_registered:
  "set [''GL_ANDROID_extension_pack_es31a'',
        ''GL_KHR_blend_equation_advanced'', ''GL_OES_sample_variables'', ''GL_OES_shader_image_atomic'',
        ''GL_OES_shader_multisample_interpolation'', ''GL_OES_texture_storage_multisample_2d_array'',
        ''GL_EXT_geometry_shader'', ''GL_EXT_gpu_shader5'', ''GL_EXT_primitive_bounding_box'',
        ''GL_EXT_shader_io_blocks'', ''GL_EXT_tessellation_shader'', ''GL_EXT_texture_buffer'',
        ''GL_EXT_texture_cube_map_array'', ''GL_OES_geometry_shader'', ''GL_OES_shader_io_blocks'',
        ''GL_OES_tessellation_shader''] \<subseteq> fst ` set defaults_aep"
  by (simp add: defaults_aep_def)

lemma google_registered:
  "set [''GL_GOOGLE_include_directive'', ''GL_GOOGLE_cpp_style_line_directive'']
     \<subseteq> fst ` set defaults_core"
  by (simp add: defaults_core_def)

lemma triggers_registered:
  "implied x \<noteq> [] \<Longrightarrow> x \<in> Registry amd nv"
  using trigger_cases [of x] aep_registered google_registered
  by (elim disjE) (simp_all add: Registry_parts)

lemma implied_registered:
  "y \<in> set (implied x) \<Longrightarrow> y \<in> Registry amd nv"
  using trigger_cases [of x] aep_registered google_registered
  by (elim disjE) (auto simp add: Registry_parts implied_values)

lemma reach_registered:
  "implicationEdge\<^sup>+\<^sup>+ x e \<Longrightarrow> e \<in> Registry amd nv"
  by (induction rule: tranclp_induct) (auto simp add: implicationEdge_def implied_registered)

lemma dom_update:
  "updateExtensionBehavior st e b = Some st' \<Longrightarrow>
     dom (extensionBehavior st') = dom (extensionBehavior st)"
  by (auto simp add: updateExtensionBehavior_def error_def warn_def Let_def dom_def
        split: if_splits option.splits TExtensionBehavior.splits)

lemma dom_updateEach:
  "updateEach st es b = Some st' \<Longrightarrow> dom (extensionBehavior st') = dom (extensionBehavior st)"
proof (induction es arbitrary: st)
  case Nil
  then show ?case by simp
next
  case (Cons e es)
  from Cons.prems obtain st1 where
    "updateExtensionBehavior st e b = Some st1" "updateEach st1 es b = Some st'"
    by (auto split: Option.bind_splits)
  then show ?case
    using Cons.IH [of st1] dom_update [of st e b st1] by simp
qed

text \<open>
  No directive changes the keys of the table: a unit started with the defaults has the keys of
  the Registry throughout.
\<close>

lemma dom_line:
  assumes "updateExtensionBehavior_line st line ext tok = Some st'"
  shows "dom (extensionBehavior st') = dom (extensionBehavior st)"
proof (cases "behaviorOfString tok")
  case None
  with assms show ?thesis
    by (subst (asm) updateExtensionBehavior_line.simps) (auto simp add: error_def)
next
  case (Some b)
  with assms show ?thesis
    by (simp add: line_expansion dom_updateEach)
qed

lemma line_total:
  "\<exists>st'. updateExtensionBehavior_line st line ext tok = Some st'"
proof (cases "behaviorOfString tok")
  case None
  then show ?thesis by (subst updateExtensionBehavior_line.simps) simp
next
  case (Some b)
  note b = behaviorOfString_valid [OF Some]
  show ?thesis
  proof (cases "ext = ''all''")
    case True
    have "implied ''all'' = []" by (simp add: implied_def)
    then show ?thesis
      using True line_leaf [OF _ Some, of "''all''" st line]
      by (simp add: updateExtensionBehavior_def)
  next
    case False
    from updateEach_table [OF b all_not_in_expansion [OF False], of st] show ?thesis
      by (auto simp add: line_expansion [OF Some])
  qed
qed

section \<open>Propagation\<close>

text \<open>
  C4. In a unit whose table has the keys of the Registry, a directive with a behaviour that
  the directive syntax knows sets every extension that its name implies, directly or through
  further implications, to that behaviour; for the Android extension pack these are the
  geometry shader, the io blocks and ten more extensions, whether the behaviour is enable,
  disable, warn or require.
\<close>

theorem propagation_closure:
  assumes tok: "behaviorOfString tok = Some b"
    and reg: "Registry amd nv \<subseteq> dom (extensionBehavior st)"
  shows "\<exists>st'. updateExtensionBehavior_line st line ext tok = Some st'
           \<and> (\<forall>e. implicationEdge\<^sup>+\<^sup>+ ext e \<longrightarrow> extensionBehavior st' e = Some b)
           \<and> (ext = ''GL_ANDROID_extension_pack_es31a'' \<longrightarrow>
                (\<forall>e \<in> set [''GL_EXT_geometry_shader'', ''GL_EXT_shader_io_blocks'',
                     ''GL_KHR_blend_equation_advanced'', ''GL_OES_sample_variables'',
                     ''GL_OES_shader_image_atomic'', ''GL_OES_shader_multisample_interpolation'',
                     ''GL_OES_texture_storage_multisample_2d_array'', ''GL_EXT_gpu_shader5'',
                     ''GL_EXT_primitive_bounding_box'', ''GL_EXT_tessellation_shader'',
                     ''GL_EXT_texture_buffer'', ''GL_EXT_texture_cube_map_array''].
                   extensionBehavior st' e = Some b))"
proof -
  obtain st' where st': "updateExtensionBehavior_line st line ext tok = Some st'"
    using line_total by blast
  have reach: "extensionBehavior st' e = Some b" if e: "implicationEdge\<^sup>+\<^sup>+ ext e" for e
  proof -
    have "ext \<noteq> ''all''"
    proof
      assume "ext = ''all''"
      with e have "implicationEdge\<^sup>+\<^sup>+ ''all'' e" by simp
      then obtain y where "implicationEdge ''all'' y" by (meson tranclpD)
      then show False by (simp add: implicationEdge_def implied_def)
    qed
    from updateEach_table [OF behaviorOfString_valid [OF tok] all_not_in_expansion [OF this], of st]
    have tab: "extensionBehavior st' =
        (\<lambda>k. if k \<in> set (expansion ext) \<and> k \<in> dom (extensionBehavior st) then Some b
              else extensionBehavior st k)"
      using st' by (simp add: line_expansion [OF tok])
    have "e \<in> set (expansion ext)" using e by (rule reach_in_expansion)
    moreover have "e \<in> dom (extensionBehavior st)" using reach_registered [OF e] reg by blast
    ultimately show ?thesis by (simp add: tab)
  qed
  have aep: "implicationEdge\<^sup>+\<^sup>+ ''GL_ANDROID_extension_pack_es31a'' e"
    if "e \<in> set (implied ''GL_ANDROID_extension_pack_es31a'')" for e
    using that by (simp add: implicationEdge_def tranclp.r_into_trancl)
  have "\<forall>e \<in> set (implied ''GL_ANDROID_extension_pack_es31a''). extensionBehavior st' e = Some b"
    if "ext = ''GL_ANDROID_extension_pack_es31a''"
    using reach aep that by blast
  then show ?thesis
    using st' reach by (simp add: implied_values)
qed

theorem propagation_closure_witness:
  "behaviorOfString ''enable'' = Some EBhEnable
   \<and> behaviorOfString ''disable'' = Some EBhDisable
   \<and> Registry True True \<subseteq> dom (extensionBehavior (startUnit True True EEsProfile 310))
   \<and> implicationEdge\<^sup>+\<^sup>+ ''GL_ANDROID_extension_pack_es31a'' ''GL_EXT_shader_io_blocks''
   \<and> (\<exists>st'. updateExtensionBehavior_line (startUnit True True EEsProfile 310) 1
               ''GL_ANDROID_extension_pack_es31a'' ''enable'' = Some st'
          \<and> extensionBehavior st' ''GL_EXT_geometry_shader'' = Some EBhEnable
          \<and> extensionBehavior st' ''GL_EXT_shader_io_blocks'' = Some EBhEnable
          \<and> extensionBehavior st' ''GL_EXT_texture_cube_map_array'' = Some EBhEnable)
   \<and> (\<exists>st'. updateExtensionBehavior_line (startUnit True True EEsProfile 310) 1
               ''GL_ANDROID_extension_pack_es31a'' ''disable'' = Some st'
          \<and> extensionBehavior st' ''GL_EXT_geometry_shader'' = Some EBhDisable
          \<and> extensionBehavior st' ''GL_EXT_shader_io_blocks'' = Some EBhDisable
          \<and> extensionBehavior st' ''GL_EXT_texture_cube_map_array'' = Some EBhDisable)"
proof -
  have en: "behaviorOfString ''enable'' = Some EBhEnable"
    and dis: "behaviorOfString ''disable'' = Some EBhDisable"
    by (simp_all add: behaviorOfString_def)
  have reg: "Registry True True \<subseteq> dom (extensionBehavior (startUnit True True EEsProfile 310))"
    by (rule Registry_startUnit)
  have edge: "implicationEdge\<^sup>+\<^sup>+ ''GL_ANDROID_extension_pack_es31a'' ''GL_EXT_shader_io_blocks''"
    by (rule tranclp.r_into_trancl) (simp add: implicationEdge_def implied_values)
  show ?thesis
    using en dis reg edge
      propagation_closure [OF en reg, of 1 "''GL_ANDROID_extension_pack_es31a''"]
      propagation_closure [OF dis reg, of 1 "''GL_ANDROID_extension_pack_es31a''"]
    by auto
qed

section \<open>The directive for all extensions\<close>

text \<open>
  C5. A directive for \<open>all\<close> with behaviour require or enable reports the error and changes
  nothing else; with disable or warn it stores that behaviour for every key of the table and
  reports nothing. The directive's entry point does exactly what the single update does.
\<close>

theorem all_directive:
  "(b = EBhRequire \<or> b = EBhEnable \<longrightarrow>
      updateExtensionBehavior st ''all'' b =
        Some (st\<lparr>infoSink := infoSink st @
               [ErrorCall (currentLoc st) ''extension 'all' cannot have 'require' or 'enable' behavior''
                  ''#extension'' []]\<rparr>))
   \<and> (b = EBhDisable \<or> b = EBhWarn \<longrightarrow>
      updateExtensionBehavior st ''all'' b =
        Some (st\<lparr>extensionBehavior :=
               (\<lambda>k. if k \<in> dom (extensionBehavior st) then Some b else None)\<rparr>))
   \<and> (behaviorOfString tok = Some b \<longrightarrow>
      updateExtensionBehavior_line st line ''all'' tok = updateExtensionBehavior st ''all'' b)"
proof -
  have "implied ''all'' = []" by (simp add: implied_def)
  then have "behaviorOfString tok = Some b \<Longrightarrow>
      updateExtensionBehavior_line st line ''all'' tok = updateExtensionBehavior st ''all'' b"
    by (rule line_leaf)
  moreover have "(\<lambda>k. map_option (\<lambda>_. b) (extensionBehavior st k)) =
      (\<lambda>k. if k \<in> dom (extensionBehavior st) then Some b else None)"
    by (auto simp add: fun_eq_iff)
  ultimately show ?thesis
    by (auto simp add: updateExtensionBehavior_def error_def)
qed

theorem all_directive_witness:
  "behaviorOfString ''enable'' = Some EBhEnable
   \<and> updateExtensionBehavior_line (startUnit True True ECoreProfile 330) 1 ''all'' ''enable'' =
       Some ((startUnit True True ECoreProfile 330)\<lparr>infoSink :=
          [ErrorCall 0 ''extension 'all' cannot have 'require' or 'enable' behavior'' ''#extension'' []]\<rparr>)
   \<and> behaviorOfString ''warn'' = Some EBhWarn
   \<and> (\<exists>st'. updateExtensionBehavior_line (startUnit True True ECoreProfile 330) 1 ''all'' ''warn'' = Some st'
         \<and> extensionBehavior st' ''GL_OES_standard_derivatives'' = Some EBhWarn
         \<and> extensionBehavior st' ''GL_FOO_bar'' = None)"
proof -
  have en: "behaviorOfString ''enable'' = Some EBhEnable"
    and wa: "behaviorOfString ''warn'' = Some EBhWarn"
    by (simp_all add: behaviorOfString_def)
  show ?thesis
    using en wa
      all_directive [of EBhEnable "startUnit True True ECoreProfile 330" "''enable''" 1]
      all_directive [of EBhWarn "startUnit True True ECoreProfile 330" "''warn''" 1]
    by (simp add: startUnit_fields startUnit_examples dom_def)
qed

section \<open>Directives for unknown extensions\<close>

text \<open>
  C6. For a name that is not a key of the table (the table having the keys of the Registry, at
  least) and is not \<open>all\<close>: the directive with require reports an error, with disable, enable
  or warn a warning, and in all four cases the unit is otherwise unchanged, so that nothing is
  stored and nothing propagated.
\<close>

theorem unknown_extension_directive:
  assumes reg: "Registry amd nv \<subseteq> dom (extensionBehavior st)"
    and absent: "extensionBehavior st ext = None"
    and ordinary: "ext \<noteq> ''all''"
  shows "updateExtensionBehavior_line st line ext ''require'' =
           Some (st\<lparr>infoSink := infoSink st @
                  [ErrorCall (currentLoc st) ''extension not supported:'' ''#extension'' ext]\<rparr>)
       \<and> (\<forall>tok \<in> {''disable'', ''enable'', ''warn''}.
            updateExtensionBehavior_line st line ext tok =
              Some (st\<lparr>infoSink := infoSink st @
                     [WarnCall (currentLoc st) ''extension not supported:'' ''#extension'' ext]\<rparr>))
       \<and> updateExtensionBehavior st ext EBhRequire =
           Some (st\<lparr>infoSink := infoSink st @
                  [ErrorCall (currentLoc st) ''extension not supported:'' ''#extension'' ext]\<rparr>)
       \<and> (\<forall>b \<in> {EBhDisable, EBhEnable, EBhWarn}.
            updateExtensionBehavior st ext b =
              Some (st\<lparr>infoSink := infoSink st @
                     [WarnCall (currentLoc st) ''extension not supported:'' ''#extension'' ext]\<rparr>))"
proof -
  have "ext \<notin> Registry amd nv" using reg absent by auto
  then have leaf: "implied ext = []" using triggers_registered by blast
  have toks: "behaviorOfString ''require'' = Some EBhRequire" "behaviorOfString ''disable'' = Some EBhDisable"
    "behaviorOfString ''enable'' = Some EBhEnable" "behaviorOfString ''warn'' = Some EBhWarn"
    by (simp_all add: behaviorOfString_def)
  show ?thesis
    using absent ordinary
    by (simp add: line_leaf [OF leaf toks(1)] line_leaf [OF leaf toks(2)] line_leaf [OF leaf toks(3)]
          line_leaf [OF leaf toks(4)] updateExtensionBehavior_def error_def warn_def)
qed

theorem unknown_extension_directive_witness:
  "Registry True True \<subseteq> dom (extensionBehavior (startUnit True True ECoreProfile 330))
   \<and> extensionBehavior (startUnit True True ECoreProfile 330) ''GL_FOO_bar'' = None
   \<and> ''GL_FOO_bar'' \<noteq> ''all''
   \<and> updateExtensionBehavior_line (startUnit True True ECoreProfile 330) 1 ''GL_FOO_bar'' ''require'' =
       Some ((startUnit True True ECoreProfile 330)\<lparr>infoSink :=
          [ErrorCall 0 ''extension not supported:'' ''#extension'' ''GL_FOO_bar'']\<rparr>)
   \<and> updateExtensionBehavior_line (startUnit True True ECoreProfile 330) 1 ''GL_FOO_bar'' ''enable'' =
       Some ((startUnit True True ECoreProfile 330)\<lparr>infoSink :=
          [WarnCall 0 ''extension not supported:'' ''#extension'' ''GL_FOO_bar'']\<rparr>)"
proof -
  have reg: "Registry True True \<subseteq> dom (extensionBehavior (startUnit True True ECoreProfile 330))"
    by (rule Registry_startUnit)
  have absent: "extensionBehavior (startUnit True True ECoreProfile 330) ''GL_FOO_bar'' = None"
    by (rule startUnit_examples)
  have ord: "''GL_FOO_bar'' \<noteq> ''all''" by simp
  show ?thesis
    using reg absent ord unknown_extension_directive [OF reg absent ord, of 1]
    by (simp add: startUnit_fields)
qed

section \<open>requireExtensions and names that are not in the table\<close>

lemma relaxedErrors_message [simp]: "relaxedErrors (message st prefix s l) = relaxedErrors st"
  by (simp add: message_def)

lemma anyEnabled_iff:
  "anyEnabled st es \<longleftrightarrow> (\<exists>e \<in> set es. getExtensionBehavior st e \<in> {EBhEnable, EBhRequire})"
  by (induction es) (auto simp add: Let_def)

lemma requireWarnings_message [simp]:
  "requireWarnings (message st prefix s l) loc fd = requireWarnings st loc fd"
  by (simp add: requireWarnings_def fun_eq_iff)

lemma warnLoop_eq:
  "warnLoop st loc es featureDesc warned =
     (st\<lparr>infoSink := infoSink st @ concat (map (requireWarnings st loc featureDesc) es)\<rparr>,
      warned \<or> (\<exists>e \<in> set es. requireWarnings st loc featureDesc e \<noteq> []))"
proof (induction es arbitrary: st warned)
  case Nil
  show ?case by simp
next
  case (Cons e es)
  show ?case
    by (simp add: Cons.IH Let_def)
       (simp add: requireWarnings_def [of st] message_def usageWarning_def)
qed

lemma infoSink_foldl_message:
  "infoSink (foldl (\<lambda>s e. message s EPrefixNone e None) st es) =
     infoSink st @ map (\<lambda>e. InfoMessage EPrefixNone e None) es"
  by (induction es arbitrary: st) (simp_all add: message_def)

lemma requireExtensions_sink:
  "infoSink (requireExtensions st loc es featureDesc) =
     infoSink st @
       (if \<exists>e \<in> set es. getExtensionBehavior st e \<in> {EBhEnable, EBhRequire} then []
        else concat (map (requireWarnings st loc featureDesc) es) @
          (if \<exists>e \<in> set es. requireWarnings st loc featureDesc e \<noteq> [] then []
           else if length es = 1
           then [ErrorCall loc ''required extension not requested:'' featureDesc (es ! 0)]
           else ErrorCall loc ''required extension not requested:'' featureDesc
                  ''Possible extensions include:''
                # map (\<lambda>e. InfoMessage EPrefixNone e None) es))"
  by (simp add: requireExtensions_def checkExtensionsRequested_def anyEnabled_iff warnLoop_eq
        infoSink_foldl_message error_def del: insert_iff)

lemma getExtensionBehavior_absent:
  assumes "extensionBehavior st e = None"
  shows "getExtensionBehavior (st\<lparr>extensionBehavior := (extensionBehavior st)(e \<mapsto> EBhDisable)\<rparr>) x =
           (if x = e then EBhDisable else getExtensionBehavior st x)"
    and "getExtensionBehavior st e = EBhMissing"
  using assms by (simp_all add: getExtensionBehavior_def)

lemma extensionsTurnedOn_iff:
  "extensionsTurnedOn st es \<longleftrightarrow>
     (\<exists>e \<in> set es. getExtensionBehavior st e \<in> {EBhEnable, EBhRequire, EBhWarn})"
  by (induction es) (auto simp add: extensionTurnedOn_def split: TExtensionBehavior.splits)

text \<open>
  C1, as the code has it. For a name that is not a key of the table, \<open>extensionsTurnedOn\<close> and
  \<open>profileRequires\<close> report what they report when the name is stored as disable, and so does
  \<open>requireExtensions\<close> when \<open>relaxedErrors\<close> is not set. Under \<open>relaxedErrors\<close> only a stored
  disable is promoted to a warning: a single name that is not in the table gets the error for a
  missing extension and no warning, where the same name stored as disable gets the notice and
  the usage warning.
\<close>

theorem missing_like_disable_unless_relaxed:
  assumes absent: "extensionBehavior st e = None"
  shows "(let st_d = st\<lparr>extensionBehavior := (extensionBehavior st)(e \<mapsto> EBhDisable)\<rparr> in
          extensionsTurnedOn st es = extensionsTurnedOn st_d es
        \<and> infoSink (profileRequires st loc P minVersion es featureDesc) =
            infoSink (profileRequires st_d loc P minVersion es featureDesc)
        \<and> (\<not> relaxedErrors st \<longrightarrow>
             infoSink (requireExtensions st loc es featureDesc) =
             infoSink (requireExtensions st_d loc es featureDesc))
        \<and> (relaxedErrors st \<longrightarrow>
             requireExtensions st loc [e] featureDesc =
               st\<lparr>infoSink := infoSink st @
                 [ErrorCall loc ''required extension not requested:'' featureDesc e]\<rparr>
           \<and> infoSink (requireExtensions st_d loc [e] featureDesc) =
               infoSink st @
                 [InfoMessage EPrefixWarning
                    ''The following extension must be enabled to use this feature:'' (Some loc),
                  usageWarning loc featureDesc e]))"
proof -
  define st_d where "st_d = st\<lparr>extensionBehavior := (extensionBehavior st)(e \<mapsto> EBhDisable)\<rparr>"
  have geb: "getExtensionBehavior st_d x = (if x = e then EBhDisable else getExtensionBehavior st x)" for x
    unfolding st_d_def by (rule getExtensionBehavior_absent [OF absent])
  have miss: "getExtensionBehavior st e = EBhMissing"
    by (rule getExtensionBehavior_absent [OF absent])
  have same: "getExtensionBehavior st_d x = b \<longleftrightarrow> getExtensionBehavior st x = b"
    if "b \<noteq> EBhDisable" "b \<noteq> EBhMissing" for x b
    using that miss by (auto simp add: geb)
  have fields: "infoSink st_d = infoSink st" "relaxedErrors st_d = relaxedErrors st"
    "profile st_d = profile st" "version st_d = version st"
    by (simp_all add: st_d_def)
  have on: "extensionsTurnedOn st es = extensionsTurnedOn st_d es"
    by (simp add: extensionsTurnedOn_iff same)
  have pr: "infoSink (profileRequires st loc P minVersion es featureDesc) =
            infoSink (profileRequires st_d loc P minVersion es featureDesc)"
    by (simp add: profileRequires_def profileRequires_loop_eq error_def same fields)
  have rw: "requireWarnings st_d loc featureDesc = requireWarnings st loc featureDesc"
    if "\<not> relaxedErrors st"
    using that by (simp add: requireWarnings_def same fields fun_eq_iff)
  have re: "infoSink (requireExtensions st loc es featureDesc) =
            infoSink (requireExtensions st_d loc es featureDesc)" if "\<not> relaxedErrors st"
    by (simp add: requireExtensions_sink same fields rw [OF that])
  have single: "requireExtensions st loc [e] featureDesc =
               st\<lparr>infoSink := infoSink st @
                 [ErrorCall loc ''required extension not requested:'' featureDesc e]\<rparr>"
    by (simp add: requireExtensions_def checkExtensionsRequested_def miss error_def Let_def)
  have promoted: "infoSink (requireExtensions st_d loc [e] featureDesc) =
               infoSink st @
                 [InfoMessage EPrefixWarning
                    ''The following extension must be enabled to use this feature:'' (Some loc),
                  usageWarning loc featureDesc e]" if "relaxedErrors st"
    using that by (simp add: requireExtensions_sink requireWarnings_def geb fields)
  show ?thesis
    unfolding Let_def st_d_def [symmetric] using on pr re single promoted by blast
qed

theorem missing_like_disable_unless_relaxed_witness:
  "extensionBehavior ((startUnit True True EEsProfile 100)\<lparr>relaxedErrors := True\<rparr>) ''GL_FOO_bar'' = None
   \<and> relaxedErrors ((startUnit True True EEsProfile 100)\<lparr>relaxedErrors := True\<rparr>)
   \<and> infoSink (requireExtensions ((startUnit True True EEsProfile 100)\<lparr>relaxedErrors := True\<rparr>) 4
        [''GL_FOO_bar''] ''derivatives'') =
       [ErrorCall 4 ''required extension not requested:'' ''derivatives'' ''GL_FOO_bar'']"
proof -
  have h: "extensionBehavior ((startUnit True True EEsProfile 100)\<lparr>relaxedErrors := True\<rparr>)
             ''GL_FOO_bar'' = None"
    by (simp add: startUnit_examples)
  show ?thesis
    using h missing_like_disable_unless_relaxed [OF h, of "[]" 4 0 0 "''derivatives''"]
    by (simp add: Let_def startUnit_fields)
qed

text \<open>
  The claim as stated fails: under \<open>relaxedErrors\<close>, a disabled extension of the Registry is
  promoted, a name outside the Registry gets the error.
\<close>

theorem missing_not_promoted_counterexample:
  "relaxedErrors ((startUnit True True EEsProfile 100)\<lparr>relaxedErrors := True\<rparr>)
   \<and> extensionBehavior ((startUnit True True EEsProfile 100)\<lparr>relaxedErrors := True\<rparr>) ''GL_FOO_bar'' = None
   \<and> extensionBehavior ((startUnit True True EEsProfile 100)\<lparr>relaxedErrors := True\<rparr>)
        ''GL_OES_standard_derivatives'' = Some EBhDisable
   \<and> infoSink (requireExtensions ((startUnit True True EEsProfile 100)\<lparr>relaxedErrors := True\<rparr>) 4
        [''GL_OES_standard_derivatives''] ''derivatives'') =
       [InfoMessage EPrefixWarning
          ''The following extension must be enabled to use this feature:'' (Some 4),
        usageWarning 4 ''derivatives'' ''GL_OES_standard_derivatives'']
   \<and> infoSink (requireExtensions ((startUnit True True EEsProfile 100)\<lparr>relaxedErrors := True\<rparr>) 4
        [''GL_FOO_bar''] ''derivatives'') =
       [ErrorCall 4 ''required extension not requested:'' ''derivatives'' ''GL_FOO_bar'']"
  by (simp add: requireExtensions_sink requireWarnings_def getExtensionBehavior_def startUnit_examples
        startUnit_fields)

section \<open>The preamble, line by line\<close>

lemma unlines_append: "unlines (xs @ ys) = unlines xs @ unlines ys"
  by (simp add: unlines_def)

lemma unlines_Cons: "unlines (x # xs) = x @ ''\<newline>'' @ unlines xs"
  by (simp add: unlines_def)

lemma unlines_Nil: "unlines [] = []"
  by (simp add: unlines_def)

lemma unlines_if: "unlines (if c then xs else ys) = (if c then unlines xs else unlines ys)"
  by simp

lemma blocks_unlines:
  "preamble_es = unlines lines_es"
  "preamble_desktop = unlines lines_desktop"
  "preamble_amd = unlines lines_amd"
  "preamble_nv = unlines lines_nv"
  by (simp_all add: preamble_es_def lines_es_def preamble_desktop_def lines_desktop_def
        preamble_amd_def lines_amd_def preamble_nv_def lines_nv_def unlines_def)

lemma preamble_tail_shape:
  "(let p2 = (if c2 then p1 @ a else p1);
        p3 = (if c3 then p2 @ b else p2);
        p4 = p3 @ g;
        p5 = (if c5 then p4 @ v else p4);
        p6 = (if c6 then p5 @ w else p5)
    in p6) =
   p1 @ (if c2 then a else []) @ (if c3 then b else []) @ g @ (if c5 then v else [])
      @ (if c6 then w else [])"
  by (simp add: Let_def)

lemma preamble_head_shape:
  "(if es then pe
    else (let d = pd @ (if amd then pa else []) @ (if nv then pn else [])
          in if v150 then (let c = d @ core in if cmp then c @ cl else c) else d)) =
   (if es then pe
    else pd @ (if amd then pa else []) @ (if nv then pn else [])
         @ (if v150 then core @ (if cmp then cl else []) else []))"
  by (simp add: Let_def)

lemma getPreamble_unlines:
  "getPreamble amd nv st p = unlines (preambleLines amd nv st)"
  unfolding getPreamble_def preamble_head_shape
  by (subst Let_def, simp only: preamble_tail_shape)
     (simp add: preambleLines_def blocks_unlines unlines_append unlines_Cons unlines_Nil unlines_if
        split del: if_split cong: if_cong)

lemma macroLines_line:
  "CHR ''\<newline>'' \<notin> set l \<Longrightarrow> macroLines (l @ CHR ''\<newline>'' # rest) = l # macroLines rest"
  by (induction l) auto

lemma macroLines_unlines:
  "\<forall>l \<in> set ls. CHR ''\<newline>'' \<notin> set l \<Longrightarrow> macroLines (unlines ls) = ls"
  by (induction ls) (simp_all add: unlines_Nil unlines_Cons macroLines_line)

lemma digit_not_newline:
  assumes "k < 10"
  shows "char_of (48 + k :: nat) \<noteq> CHR ''\<newline>''"
proof
  assume "char_of (48 + k) = CHR ''\<newline>''"
  then have "of_char (char_of (48 + k)) = (of_char (CHR ''\<newline>'') :: nat)" by simp
  then show False using assms by simp
qed

lemma digits_no_newline: "CHR ''\<newline>'' \<notin> set (digits n)"
proof (induction n rule: digits.induct)
  case (1 n)
  show ?case
  proof (cases "n < 10")
    case True
    then show ?thesis
      using digit_not_newline [of n] by (subst digits.simps) simp
  next
    case False
    then show ?thesis
      using 1 digit_not_newline [of "n mod 10"] by (subst digits.simps) simp
  qed
qed

lemma snprintf_no_newline: "CHR ''\<newline>'' \<notin> set (snprintf_d n i)"
proof -
  have "CHR ''\<newline>'' \<notin> set (decimal i)"
    by (simp add: decimal_def digits_no_newline)
  then show ?thesis
    unfolding snprintf_d_def by (meson in_set_takeD)
qed

lemma blocks_no_newline:
  "\<forall>l \<in> set lines_es. CHR ''\<newline>'' \<notin> set l"
  "\<forall>l \<in> set lines_desktop. CHR ''\<newline>'' \<notin> set l"
  "\<forall>l \<in> set lines_amd. CHR ''\<newline>'' \<notin> set l"
  "\<forall>l \<in> set lines_nv. CHR ''\<newline>'' \<notin> set l"
  by (simp_all add: lines_es_def lines_desktop_def lines_amd_def lines_nv_def)

lemma preambleLines_no_newline:
  "\<forall>l \<in> set (preambleLines amd nv st). CHR ''\<newline>'' \<notin> set l"
  using blocks_no_newline snprintf_no_newline
  by (auto simp add: preambleLines_def)

lemma macroLines_getPreamble:
  "macroLines (getPreamble amd nv st p) = preambleLines amd nv st"
  by (simp add: getPreamble_unlines macroLines_unlines preambleLines_no_newline)

lemma es_desktop_common:
  assumes "l \<in> set lines_es"
    and "l \<in> set lines_desktop \<union> set lines_amd \<union> set lines_nv
           \<union> {''#define GL_core_profile 1'', ''#define GL_compatibility_profile 1''}"
  shows "l = ''#define GL_FRAGMENT_PRECISION_HIGH 1''
       \<or> l = ''#define GL_EXT_shader_non_constant_global_initializers 1''"
  using assms
  by (auto simp add: lines_es_def lines_desktop_def lines_amd_def lines_nv_def)

lemma tail_cover_generic:
  assumes "set a2 \<subseteq> T" and "set a3 \<subseteq> T" and "set g \<subseteq> T" and "v \<in> V" and "w \<in> W"
  shows "set ((if c2 then a2 else []) @ (if c3 then a3 else []) @ g
              @ (if c5 then [v] else []) @ (if c6 then [w] else [])) \<subseteq> T \<union> V \<union> W"
  using assms by auto

lemma head_cover_generic:
  "set (d @ (if amd then a else []) @ (if nv then n else [])
          @ (if v150 then c # (if cmp then [cl] else []) else []))
     \<subseteq> set d \<union> set a \<union> set n \<union> {c, cl}"
  by auto

lemma append_cover: "set h \<subseteq> A \<Longrightarrow> set t \<subseteq> B \<Longrightarrow> set (h @ t) \<subseteq> A \<union> B"
  by auto

lemma tail_cover:
  "set ((if c2 then [''#define GL_EXT_device_group 1'', ''#define GL_EXT_multiview 1''] else [])
        @ (if c3 then [''#define GL_OVR_multiview 1'', ''#define GL_OVR_multiview2 1''] else [])
        @ [''#define GL_GOOGLE_cpp_style_line_directive 1'', ''#define GL_GOOGLE_include_directive 1'']
        @ (if c5 then [''#define VULKAN '' @ a] else [])
        @ (if c6 then [''#define GL_SPIRV '' @ b] else []))
   \<subseteq> {''#define GL_EXT_device_group 1'', ''#define GL_EXT_multiview 1'',
         ''#define GL_OVR_multiview 1'', ''#define GL_OVR_multiview2 1'',
         ''#define GL_GOOGLE_cpp_style_line_directive 1'', ''#define GL_GOOGLE_include_directive 1''}
     \<union> {l. \<exists>s. l = ''#define VULKAN '' @ s} \<union> {l. \<exists>s. l = ''#define GL_SPIRV '' @ s}"
proof (rule tail_cover_generic)
  show "''#define VULKAN '' @ a \<in> {l. \<exists>s. l = ''#define VULKAN '' @ s}" by blast
  show "''#define GL_SPIRV '' @ b \<in> {l. \<exists>s. l = ''#define GL_SPIRV '' @ s}" by blast
qed simp_all

lemma es_lines_cover:
  assumes "profile st = EEsProfile"
  shows "set (preambleLines amd nv st) \<subseteq>
     set lines_es
     \<union> ({''#define GL_EXT_device_group 1'', ''#define GL_EXT_multiview 1'',
         ''#define GL_OVR_multiview 1'', ''#define GL_OVR_multiview2 1'',
         ''#define GL_GOOGLE_cpp_style_line_directive 1'', ''#define GL_GOOGLE_include_directive 1''}
     \<union> {l. \<exists>s. l = ''#define VULKAN '' @ s} \<union> {l. \<exists>s. l = ''#define GL_SPIRV '' @ s})"
  unfolding preambleLines_def
  by (simp only: assms if_True simp_thms) (rule append_cover [OF subset_refl tail_cover])

lemma desktop_lines_cover:
  assumes "profile st \<noteq> EEsProfile"
  shows "set (preambleLines amd nv st) \<subseteq>
     (set lines_desktop \<union> set lines_amd \<union> set lines_nv
           \<union> {''#define GL_core_profile 1'', ''#define GL_compatibility_profile 1''})
     \<union> ({''#define GL_EXT_device_group 1'', ''#define GL_EXT_multiview 1'',
         ''#define GL_OVR_multiview 1'', ''#define GL_OVR_multiview2 1'',
         ''#define GL_GOOGLE_cpp_style_line_directive 1'', ''#define GL_GOOGLE_include_directive 1''}
     \<union> {l. \<exists>s. l = ''#define VULKAN '' @ s} \<union> {l. \<exists>s. l = ''#define GL_SPIRV '' @ s})"
  unfolding preambleLines_def
  by (simp only: assms if_False simp_thms) (rule append_cover [OF head_cover_generic tail_cover])

lemma always_generic:
  assumes "f \<in> set h" and "n \<in> set h"
  shows "{f, n, g1, g2} \<subseteq> set (h @ x @ y @ [g1, g2] @ z @ w)"
  using assms by auto

lemma in_head: "f \<in> set d \<Longrightarrow> f \<in> set (d @ r)"
  by simp

lemma always_in_blocks:
  "''#define GL_FRAGMENT_PRECISION_HIGH 1'' \<in> set lines_es"
  "''#define GL_EXT_shader_non_constant_global_initializers 1'' \<in> set lines_es"
  "''#define GL_FRAGMENT_PRECISION_HIGH 1'' \<in> set lines_desktop"
  "''#define GL_EXT_shader_non_constant_global_initializers 1'' \<in> set lines_desktop"
  by (simp_all add: lines_es_def lines_desktop_def)

lemma always_lines:
  "{''#define GL_FRAGMENT_PRECISION_HIGH 1'',
    ''#define GL_EXT_shader_non_constant_global_initializers 1'',
    ''#define GL_GOOGLE_cpp_style_line_directive 1'',
    ''#define GL_GOOGLE_include_directive 1''} \<subseteq> set (preambleLines amd nv st)"
proof (cases "profile st = EEsProfile")
  case True
  show ?thesis
    unfolding preambleLines_def
    by (simp only: True if_True simp_thms) (rule always_generic [OF always_in_blocks(1,2)])
next
  case False
  show ?thesis
    unfolding preambleLines_def
    by (simp only: False if_False simp_thms)
       (rule always_generic [OF in_head [OF always_in_blocks(3)] in_head [OF always_in_blocks(4)]])
qed

text \<open>
  C2, as the code has it. The ES block and the block of the other profiles have two lines in
  common, and both kinds of preamble go on with lines that do not depend on ES-ness. So a line
  that occurs in the preamble of an ES unit and in that of a non-ES unit is one of eight
  lines, or a \<open>VULKAN\<close> or \<open>GL_SPIRV\<close> line; four of the eight occur in every preamble.
\<close>

theorem preamble_common_lines:
  assumes es: "profile st_es = EEsProfile" and desktop: "profile st_d \<noteq> EEsProfile"
  shows "(\<forall>l. l \<in> set (macroLines (getPreamble amd nv st_es p))
              \<and> l \<in> set (macroLines (getPreamble amd nv st_d q)) \<longrightarrow>
            l \<in> {''#define GL_FRAGMENT_PRECISION_HIGH 1'',
                  ''#define GL_EXT_shader_non_constant_global_initializers 1'',
                  ''#define GL_EXT_device_group 1'', ''#define GL_EXT_multiview 1'',
                  ''#define GL_OVR_multiview 1'', ''#define GL_OVR_multiview2 1'',
                  ''#define GL_GOOGLE_cpp_style_line_directive 1'',
                  ''#define GL_GOOGLE_include_directive 1''}
            \<or> (\<exists>s. l = ''#define VULKAN '' @ s) \<or> (\<exists>s. l = ''#define GL_SPIRV '' @ s))
       \<and> {''#define GL_FRAGMENT_PRECISION_HIGH 1'',
          ''#define GL_EXT_shader_non_constant_global_initializers 1'',
          ''#define GL_GOOGLE_cpp_style_line_directive 1'',
          ''#define GL_GOOGLE_include_directive 1''}
           \<subseteq> set (macroLines (getPreamble amd nv st_es p))
             \<inter> set (macroLines (getPreamble amd nv st_d q))"
proof -
  define rest where "rest = {''#define GL_EXT_device_group 1'', ''#define GL_EXT_multiview 1'',
         ''#define GL_OVR_multiview 1'', ''#define GL_OVR_multiview2 1'',
         ''#define GL_GOOGLE_cpp_style_line_directive 1'', ''#define GL_GOOGLE_include_directive 1''}
     \<union> {l. \<exists>s. l = ''#define VULKAN '' @ s} \<union> {l. \<exists>s. l = ''#define GL_SPIRV '' @ s}"
  define dstatic where "dstatic = set lines_desktop \<union> set lines_amd \<union> set lines_nv
           \<union> {''#define GL_core_profile 1'', ''#define GL_compatibility_profile 1''}"
  define both where "both = {''#define GL_FRAGMENT_PRECISION_HIGH 1'',
                  ''#define GL_EXT_shader_non_constant_global_initializers 1''}"
  define Le where "Le = set (macroLines (getPreamble amd nv st_es p))"
  define Ld where "Ld = set (macroLines (getPreamble amd nv st_d q))"
  have A: "Le \<subseteq> set lines_es \<union> rest"
    unfolding Le_def rest_def macroLines_getPreamble by (rule es_lines_cover [OF es])
  have B: "Ld \<subseteq> dstatic \<union> rest"
    unfolding Ld_def dstatic_def rest_def macroLines_getPreamble
    by (rule desktop_lines_cover [OF desktop])
  have C: "l \<in> both" if "l \<in> set lines_es" "l \<in> dstatic" for l
    using es_desktop_common [OF that(1) that(2) [unfolded dstatic_def]]
    unfolding both_def insert_iff empty_iff by simp
  have D: "l \<in> both \<union> rest" if "l \<in> Le" "l \<in> Ld" for l
    using A B C that by blast
  have E: "l \<in> {''#define GL_FRAGMENT_PRECISION_HIGH 1'',
                  ''#define GL_EXT_shader_non_constant_global_initializers 1'',
                  ''#define GL_EXT_device_group 1'', ''#define GL_EXT_multiview 1'',
                  ''#define GL_OVR_multiview 1'', ''#define GL_OVR_multiview2 1'',
                  ''#define GL_GOOGLE_cpp_style_line_directive 1'',
                  ''#define GL_GOOGLE_include_directive 1''}
            \<or> (\<exists>s. l = ''#define VULKAN '' @ s) \<or> (\<exists>s. l = ''#define GL_SPIRV '' @ s)"
    if "l \<in> both \<union> rest" for l
    using that unfolding both_def rest_def Un_iff mem_Collect_eq insert_iff empty_iff
    by (elim disjE) (simp_all only: simp_thms)
  have F: "{''#define GL_FRAGMENT_PRECISION_HIGH 1'',
          ''#define GL_EXT_shader_non_constant_global_initializers 1'',
          ''#define GL_GOOGLE_cpp_style_line_directive 1'',
          ''#define GL_GOOGLE_include_directive 1''} \<subseteq> Le \<inter> Ld"
    unfolding Le_def Ld_def macroLines_getPreamble Int_subset_iff
    by (rule conjI [OF always_lines always_lines])
  have G: "\<forall>l. l \<in> Le \<and> l \<in> Ld \<longrightarrow>
            l \<in> {''#define GL_FRAGMENT_PRECISION_HIGH 1'',
                  ''#define GL_EXT_shader_non_constant_global_initializers 1'',
                  ''#define GL_EXT_device_group 1'', ''#define GL_EXT_multiview 1'',
                  ''#define GL_OVR_multiview 1'', ''#define GL_OVR_multiview2 1'',
                  ''#define GL_GOOGLE_cpp_style_line_directive 1'',
                  ''#define GL_GOOGLE_include_directive 1''}
            \<or> (\<exists>s. l = ''#define VULKAN '' @ s) \<or> (\<exists>s. l = ''#define GL_SPIRV '' @ s)"
  proof (intro allI impI)
    fix l assume "l \<in> Le \<and> l \<in> Ld"
    then have "l \<in> both \<union> rest" using D by simp
    then show "l \<in> {''#define GL_FRAGMENT_PRECISION_HIGH 1'',
                  ''#define GL_EXT_shader_non_constant_global_initializers 1'',
                  ''#define GL_EXT_device_group 1'', ''#define GL_EXT_multiview 1'',
                  ''#define GL_OVR_multiview 1'', ''#define GL_OVR_multiview2 1'',
                  ''#define GL_GOOGLE_cpp_style_line_directive 1'',
                  ''#define GL_GOOGLE_include_directive 1''}
            \<or> (\<exists>s. l = ''#define VULKAN '' @ s) \<or> (\<exists>s. l = ''#define GL_SPIRV '' @ s)"
      by (rule E)
  qed
  show ?thesis
    unfolding Le_def [symmetric] Ld_def [symmetric] by (rule conjI [OF G F])
qed

theorem preamble_common_lines_witness:
  "profile (startUnit True True EEsProfile 310) = EEsProfile
   \<and> profile (startUnit True True ECoreProfile 330) \<noteq> EEsProfile
   \<and> ''#define GL_ES 1'' \<in> set (macroLines (getPreamble True True (startUnit True True EEsProfile 310) []))
   \<and> ''#define GL_ES 1'' \<notin> set (macroLines (getPreamble True True (startUnit True True ECoreProfile 330) []))"
proof -
  have es: "profile (startUnit True True EEsProfile 310) = EEsProfile"
    and d: "profile (startUnit True True ECoreProfile 330) \<noteq> EEsProfile"
    by (simp_all add: startUnit_fields)
  have "''#define GL_ES 1'' \<in> set lines_es" by (simp add: lines_es_def)
  then have inES: "''#define GL_ES 1'' \<in> set (macroLines (getPreamble True True (startUnit True True EEsProfile 310) []))"
    by (simp add: macroLines_getPreamble preambleLines_def startUnit_fields)
  have notshared: "\<not> (''#define GL_ES 1'' \<in> {''#define GL_FRAGMENT_PRECISION_HIGH 1'',
                  ''#define GL_EXT_shader_non_constant_global_initializers 1'',
                  ''#define GL_EXT_device_group 1'', ''#define GL_EXT_multiview 1'',
                  ''#define GL_OVR_multiview 1'', ''#define GL_OVR_multiview2 1'',
                  ''#define GL_GOOGLE_cpp_style_line_directive 1'',
                  ''#define GL_GOOGLE_include_directive 1''}
            \<or> (\<exists>s. ''#define GL_ES 1'' = ''#define VULKAN '' @ s)
            \<or> (\<exists>s. ''#define GL_ES 1'' = ''#define GL_SPIRV '' @ s))"
    by simp
  from preamble_common_lines [OF es d, of True True "[]" "[]"]
  have "''#define GL_ES 1'' \<in> set (macroLines (getPreamble True True (startUnit True True EEsProfile 310) []))
        \<and> ''#define GL_ES 1'' \<in> set (macroLines (getPreamble True True (startUnit True True ECoreProfile 330) []))
        \<longrightarrow> ''#define GL_ES 1'' \<in> {''#define GL_FRAGMENT_PRECISION_HIGH 1'',
                  ''#define GL_EXT_shader_non_constant_global_initializers 1'',
                  ''#define GL_EXT_device_group 1'', ''#define GL_EXT_multiview 1'',
                  ''#define GL_OVR_multiview 1'', ''#define GL_OVR_multiview2 1'',
                  ''#define GL_GOOGLE_cpp_style_line_directive 1'',
                  ''#define GL_GOOGLE_include_directive 1''}
            \<or> (\<exists>s. ''#define GL_ES 1'' = ''#define VULKAN '' @ s)
            \<or> (\<exists>s. ''#define GL_ES 1'' = ''#define GL_SPIRV '' @ s)"
    by (rule conjunct1 [THEN spec])
  with notshared inES have "''#define GL_ES 1'' \<notin> set (macroLines (getPreamble True True (startUnit True True ECoreProfile 330) []))"
    by (meson)
  with es d inES show ?thesis by (intro conjI)
qed

text \<open>The claim as stated fails: the ES and the core preamble for version 100 share a line.\<close>

theorem preamble_shared_line_counterexample:
  "profile (startUnit True True EEsProfile 100) = EEsProfile
   \<and> profile (startUnit True True ECoreProfile 100) \<noteq> EEsProfile
   \<and> ''#define GL_FRAGMENT_PRECISION_HIGH 1''
        \<in> set (macroLines (getPreamble True True (startUnit True True EEsProfile 100) []))
   \<and> ''#define GL_FRAGMENT_PRECISION_HIGH 1''
        \<in> set (macroLines (getPreamble True True (startUnit True True ECoreProfile 100) []))"
  using always_lines [of True True "startUnit True True EEsProfile 100"]
    always_lines [of True True "startUnit True True ECoreProfile 100"]
  by (simp only: macroLines_getPreamble startUnit_fields insert_subset) simp

section \<open>Determinism of the preamble\<close>

lemma getPreamble_inputs:
  assumes "preambleInputs st1 = preambleInputs st2"
  shows "getPreamble amd nv st1 p1 = getPreamble amd nv st2 p2"
proof -
  from assms have eqs: "profile st1 = profile st2" "version st1 = version st2"
    "vulkanGlsl (spvVersion st1) = vulkanGlsl (spvVersion st2)"
    "openGl (spvVersion st1) = openGl (spvVersion st2)"
    by (simp_all add: preambleInputs_def)
  show ?thesis
    unfolding getPreamble_def by (simp only: eqs)
qed

lemma inputs_sink [simp]: "preambleInputs (st\<lparr>infoSink := i\<rparr>) = preambleInputs st"
  by (simp add: preambleInputs_def)

lemma inputs_requireProfile: "preambleInputs (requireProfile st loc P fd) = preambleInputs st"
  by (simp add: requireProfile_def error_def)

lemma inputs_profileRequires:
  "preambleInputs (profileRequires st loc P mv es fd) = preambleInputs st"
  by (simp add: profileRequires_def profileRequires_loop_eq error_def)

lemma inputs_checkDeprecated: "preambleInputs (checkDeprecated st loc P dv fd) = preambleInputs st"
  by (simp add: checkDeprecated_def error_def message_def)

lemma inputs_foldl_message:
  "preambleInputs (foldl (\<lambda>s e. message s EPrefixNone e None) st es) = preambleInputs st"
  by (induction es arbitrary: st) (simp_all add: message_def)

lemma inputs_requireExtensions:
  "preambleInputs (requireExtensions st loc es fd) = preambleInputs st"
  by (simp add: requireExtensions_def checkExtensionsRequested_def warnLoop_eq inputs_foldl_message
        error_def)

lemma inputs_update:
  "updateExtensionBehavior st e b = Some st' \<Longrightarrow> preambleInputs st' = preambleInputs st"
  by (auto simp add: updateExtensionBehavior_def error_def warn_def preambleInputs_def Let_def
        split: if_splits option.splits TExtensionBehavior.splits)

lemma inputs_updateEach:
  "updateEach st es b = Some st' \<Longrightarrow> preambleInputs st' = preambleInputs st"
proof (induction es arbitrary: st)
  case Nil
  then show ?case by simp
next
  case (Cons e es)
  then show ?case
    by (auto simp add: inputs_update split: Option.bind_splits)
qed

lemma inputs_line:
  assumes "updateExtensionBehavior_line st line ext tok = Some st'"
  shows "preambleInputs st' = preambleInputs st"
proof (cases "behaviorOfString tok")
  case None
  with assms show ?thesis
    by (subst (asm) updateExtensionBehavior_line.simps) (auto simp add: error_def)
next
  case (Some b)
  with assms show ?thesis
    by (simp add: line_expansion inputs_updateEach)
qed

text \<open>
  C8. The preamble is a function of the profile, the version and the two target versions
  (and of the build's macros): two units that agree on these get the same text, whatever
  their tables of behaviours, their other members and the previous contents of the output
  string are. The directive and the checks of the gate do not change these inputs, so the
  preamble after any of them is the preamble before.
\<close>

theorem getPreamble_deterministic:
  "(profile st1 = profile st2 \<and> version st1 = version st2
      \<and> vulkanGlsl (spvVersion st1) = vulkanGlsl (spvVersion st2)
      \<and> openGl (spvVersion st1) = openGl (spvVersion st2)
      \<longrightarrow> getPreamble amd nv st1 p1 = getPreamble amd nv st2 p2)
   \<and> (updateExtensionBehavior_line st1 line ext tok = Some st'
      \<longrightarrow> getPreamble amd nv st' p1 = getPreamble amd nv st1 p2)
   \<and> getPreamble amd nv (requireProfile st1 loc P featureDesc) p1 = getPreamble amd nv st1 p2
   \<and> getPreamble amd nv (profileRequires st1 loc P minVersion es featureDesc) p1 = getPreamble amd nv st1 p2
   \<and> getPreamble amd nv (checkDeprecated st1 loc P depVersion featureDesc) p1 = getPreamble amd nv st1 p2
   \<and> getPreamble amd nv (requireExtensions st1 loc es featureDesc) p1 = getPreamble amd nv st1 p2"
proof -
  have a: "getPreamble amd nv st1 p1 = getPreamble amd nv st2 p2"
    if "profile st1 = profile st2 \<and> version st1 = version st2
      \<and> vulkanGlsl (spvVersion st1) = vulkanGlsl (spvVersion st2)
      \<and> openGl (spvVersion st1) = openGl (spvVersion st2)"
    using that by (intro getPreamble_inputs) (simp add: preambleInputs_def)
  have b: "getPreamble amd nv st' p1 = getPreamble amd nv st1 p2"
    if "updateExtensionBehavior_line st1 line ext tok = Some st'"
    by (rule getPreamble_inputs [OF inputs_line [OF that]])
  show ?thesis
    using a b
      getPreamble_inputs [OF inputs_requireProfile, of amd nv st1 loc P featureDesc p1 p2]
      getPreamble_inputs [OF inputs_profileRequires, of amd nv st1 loc P minVersion es featureDesc p1 p2]
      getPreamble_inputs [OF inputs_checkDeprecated, of amd nv st1 loc P depVersion featureDesc p1 p2]
      getPreamble_inputs [OF inputs_requireExtensions, of amd nv st1 loc es featureDesc p1 p2]
    by blast
qed

theorem getPreamble_deterministic_witness:
  "getPreamble True True (startUnit True True EEsProfile 310) ''old contents'' =
   getPreamble True True
     ((startUnit True True EEsProfile 310)\<lparr>relaxedErrors := True, extensionBehavior := Map.empty\<rparr>) []"
  using getPreamble_deterministic [of "startUnit True True EEsProfile 310"
      "(startUnit True True EEsProfile 310)\<lparr>relaxedErrors := True, extensionBehavior := Map.empty\<rparr>"
      True True "''old contents''" "[]" 0 "[]" "[]" "startUnit True True EEsProfile 310" 0 0 "[]" 0 "[]" 0]
  by (simp add: startUnit_fields)

end
